theory Spec2Isabelle
  imports Complex_Main "HOL-Library.AList" "HOL-Library.Sublist"
begin

section \<open>The webpack configuration assembler of \<^verbatim>\<open>build/webpack.js\<close>\<close>

text \<open>
  A shallow embedding of \<^verbatim>\<open>src/build/webpack.js\<close>: the externals handler, the
  optimization policy, the output file name function, the entry thunk and the closing
  rewrite of the \<^verbatim>\<open>main.js\<close> entry key in \<^verbatim>\<open>getBaseWebpackConfig\<close>.

  JavaScript values are modelled as follows.
  \<^item> A thrown exception or a rejected promise is \<open>Inl e\<close> of a result \<open>error + 'a\<close>.
  \<^item> An object used as a dictionary is an association list in insertion order, which is
    the enumeration order of JavaScript for keys that are not array indices; a key is
    looked up with \<open>map_of\<close>, written with \<open>AList.update\<close> (in place when the key
    exists, appended otherwise) and removed with \<open>AList.delete\<close>. The list of an
    object has each key once, so that its length is the number of its keys.
  \<^item> A number is a \<open>rat\<close>: the only arithmetic of the file is a page count times
    \<^verbatim>\<open>0.5\<close>, which is exact in binary floating point.
\<close>

datatype error = TypeError | SyntaxError | Thrown string

subsection \<open>optimizationConfig\<close>

record commonsCacheGroup =
  cg_name :: string
  cg_chunks :: string
  cg_minChunks :: rat

text \<open>
  \<^verbatim>\<open>splitChunks\<close> is either the literal \<^verbatim>\<open>false\<close> or the object with
  \<^verbatim>\<open>chunks\<close> and the three cache groups \<^verbatim>\<open>default\<close>, \<^verbatim>\<open>vendors\<close> (both
  \<^verbatim>\<open>false\<close> in the source) and \<^verbatim>\<open>commons\<close>.
\<close>

datatype splitChunksOption =
  SplitChunksFalse
  | SplitChunks (sc_chunks: string) (sc_default: bool) (sc_vendors: bool)
      (sc_commons: commonsCacheGroup)

text \<open>
  A key that the returned object does not have is \<open>None\<close>: the server result has no
  \<^verbatim>\<open>runtimeChunk\<close>, the client results have no \<^verbatim>\<open>minimize\<close>.
\<close>

record optimization =
  runtimeChunk :: "string option"
  splitChunks :: splitChunksOption
  minimize :: "bool option"

definition optimizationConfig :: "string \<Rightarrow> bool \<Rightarrow> bool \<Rightarrow> nat \<Rightarrow> optimization" where
  "optimizationConfig dir dev isServer totalPages =
     (if isServer then
        \<lparr>runtimeChunk = None, splitChunks = SplitChunksFalse, minimize = Some False\<rparr>
      else
        let config = \<lparr>runtimeChunk = Some ''static/commons/runtime.js'',
                       splitChunks = SplitChunksFalse, minimize = None\<rparr>
        in if dev then config
           else config\<lparr>splitChunks :=
                  SplitChunks ''all'' False False
                    \<lparr>cg_name = ''commons'', cg_chunks = ''all'',
                     cg_minChunks =
                       (if totalPages > 2 then of_nat totalPages * (1 / 2) else 2)\<rparr>\<rparr>)"

text \<open>The \<^verbatim>\<open>minChunks\<close> of the commons cache group, when the result has one.\<close>

definition commons_minChunks :: "optimization \<Rightarrow> rat option" where
  "commons_minChunks opt =
     (case splitChunks opt of
        SplitChunksFalse \<Rightarrow> None
      | SplitChunks _ _ _ commons \<Rightarrow> Some (cg_minChunks commons))"

text \<open>
  The threshold in the words of the specification, for comparison with the code:
  \<^verbatim>\<open>totalPageCount > 2 ? ceil(totalPageCount * 0.5) : 2\<close>.
\<close>

definition spec_threshold :: "nat \<Rightarrow> rat" where
  "spec_threshold totalPageCount =
     (if totalPageCount > 2 then of_int \<lceil>(of_nat totalPageCount :: rat) * (1 / 2)\<rceil> else 2)"

subsection \<open>externalsConfig\<close>

text \<open>
  The three regular expressions of the externals handler are unanchored searches for a
  literal text in which every separator is the class \<^verbatim>\<open>[/\\]\<close>; the third goes on with
  \<^verbatim>\<open>.*\.js$\<close>. A pattern is a list of items; \<open>matches_then ps k s\<close> says that
  \<open>ps\<close> matches a prefix of \<open>s\<close> and \<open>k\<close> accepts what follows; \<open>search m s\<close> tries
  every start position of \<open>s\<close>, the end included.
\<close>

datatype pat = Lit char | Sep

definition is_sep :: "char \<Rightarrow> bool" where
  "is_sep c = (c = CHR ''/'' \<or> c = CHR 0x5C)"

fun matches_then :: "pat list \<Rightarrow> (string \<Rightarrow> bool) \<Rightarrow> string \<Rightarrow> bool" where
  "matches_then [] k s = k s"
| "matches_then (p # ps) k [] = False"
| "matches_then (Lit c # ps) k (d # s) = (c = d \<and> matches_then ps k s)"
| "matches_then (Sep # ps) k (d # s) = (is_sep d \<and> matches_then ps k s)"

fun search :: "(string \<Rightarrow> bool) \<Rightarrow> string \<Rightarrow> bool" where
  "search m [] = m []"
| "search m (c # s) = (m (c # s) \<or> search m s)"

definition lits :: "string \<Rightarrow> pat list" where
  "lits s = map Lit s"

text \<open>
  \<^verbatim>\<open>.\<close> matches every character but a line terminator. Of the four line terminators
  of JavaScript, line feed and carriage return are characters of \<open>char\<close>; the separators
  U+2028 and U+2029 are outside this type.
\<close>

definition line_terminator :: "char \<Rightarrow> bool" where
  "line_terminator c = (c = CHR 0x0A \<or> c = CHR 0x0D)"

definition ends_with :: "string \<Rightarrow> string \<Rightarrow> bool" where
  "ends_with s suf =
     (length suf \<le> length s \<and> drop (length s - length suf) s = suf)"

text \<open>\<^verbatim>\<open>.*\.js$\<close> from the current position to the end of the text.\<close>

definition dot_star_js_end :: "string \<Rightarrow> bool" where
  "dot_star_js_end s =
     (ends_with s ''.js'' \<and>
      list_all (\<lambda>c. \<not> line_terminator c) (take (length s - 3) s))"

text \<open>\<^verbatim>\<open>/node_modules[/\\]next[/\\]dist[/\\]pages/\<close>\<close>

definition re_default_pages :: "string \<Rightarrow> bool" where
  "re_default_pages res =
     search (matches_then
       (lits ''node_modules'' @ [Sep] @ lits ''next'' @ [Sep] @ lits ''dist'' @ [Sep] @
        lits ''pages'') (\<lambda>_. True)) res"

text \<open>\<^verbatim>\<open>/node_modules[/\\]webpack/\<close>\<close>

definition re_webpack :: "string \<Rightarrow> bool" where
  "re_webpack res =
     search (matches_then (lits ''node_modules'' @ [Sep] @ lits ''webpack'') (\<lambda>_. True)) res"

text \<open>\<^verbatim>\<open>/node_modules[/\\].*\.js$/\<close>\<close>

definition re_node_modules_js :: "string \<Rightarrow> bool" where
  "re_node_modules_js res =
     search (matches_then (lits ''node_modules'' @ [Sep]) dot_star_js_end) res"

text \<open>
  What the handler passes to webpack's callback: \<^verbatim>\<open>callback()\<close>, which leaves the
  request to be bundled, \<^verbatim>\<open>callback(null, result)\<close>, which makes it an external, and
  \<^verbatim>\<open>callback(err)\<close>, which reports an error to webpack.
\<close>

datatype callback = CallbackNone | CallbackResult string | CallbackError error

text \<open>
  The package \<^verbatim>\<open>resolve\<close> is not part of the file: \<open>resolve request basedir\<close> is a
  parameter, \<open>Inl err\<close> when it calls back with an error and \<open>Inr res\<close> with the
  resolved path otherwise (\<^verbatim>\<open>preserveSymlinks\<close> is always \<^verbatim>\<open>true\<close>).
\<close>

type_synonym resolver = "string \<Rightarrow> string \<Rightarrow> error + string"

definition externalsHandler :: "resolver \<Rightarrow> string \<Rightarrow> string \<Rightarrow> string \<Rightarrow> callback" where
  "externalsHandler resolve dir context request =
     (case resolve request dir of
        Inl err \<Rightarrow> CallbackNone
      | Inr res \<Rightarrow>
          if re_default_pages res then CallbackNone
          else if re_webpack res then CallbackNone
          else if re_node_modules_js res then CallbackResult (''commonjs '' @ request)
          else CallbackNone)"

definition externalsConfig :: "resolver \<Rightarrow> string \<Rightarrow> bool \<Rightarrow> (string \<Rightarrow> string \<Rightarrow> callback) list" where
  "externalsConfig resolve dir isServer =
     (if \<not> isServer then [] else [externalsHandler resolve dir])"

subsection \<open>output.filename\<close>

record chunk =
  chunk_name :: string
  renderedHash :: string

text \<open>
  \<^verbatim>\<open>String.prototype.replace\<close> expands the patterns of its replacement text. The
  regular expression \<^verbatim>\<open>/\.js$/\<close> has no capture group, so the patterns are
  \<^verbatim>\<open>$$\<close> (a dollar), \<^verbatim>\<open>$&\<close> (the matched text), \<^verbatim>\<open>$`\<close> (the text before the
  match) and \<^verbatim>\<open>$'\<close> (the text after it); every other character, a dollar before
  anything else included, stands for itself.
\<close>

fun getSubstitution :: "string \<Rightarrow> string \<Rightarrow> string \<Rightarrow> string \<Rightarrow> string" where
  "getSubstitution matched before after [] = []"
| "getSubstitution matched before after [c] = [c]"
| "getSubstitution matched before after (c # d # r) =
     (if c = CHR ''$'' then
        (if d = CHR ''$'' then CHR ''$'' # getSubstitution matched before after r
         else if d = CHR ''&'' then matched @ getSubstitution matched before after r
         else if d = CHR 0x60 then before @ getSubstitution matched before after r
         else if d = CHR 0x27 then after @ getSubstitution matched before after r
         else c # getSubstitution matched before after (d # r))
      else c # getSubstitution matched before after (d # r))"

text \<open>
  \<^verbatim>\<open>s.replace(/\.js$/, replacement)\<close>: the only possible match is the last three
  characters of \<open>s\<close>; without a match the text is returned as it is.
\<close>

definition replace_js_end :: "string \<Rightarrow> string \<Rightarrow> string" where
  "replace_js_end s replacement =
     (if ends_with s ''.js'' then
        take (length s - 3) s @
          getSubstitution ''.js'' (take (length s - 3) s) [] replacement
      else s)"

definition filename :: "bool \<Rightarrow> chunk \<Rightarrow> string" where
  "filename dev chunk =
     (if \<not> dev \<and> (chunk_name chunk = ''static/commons/main.js'' \<or>
                   chunk_name chunk = ''static/commons/runtime.js'')
      then replace_js_end (chunk_name chunk) (''-'' @ renderedHash chunk @ ''.js'')
      else ''[name]'')"

subsection \<open>The entry mapping\<close>

text \<open>
  An entry mapping takes a chunk name to the list of its modules. Spreading one object
  over another, \<^verbatim>\<open>{...a, ...b}\<close>, writes the keys of \<open>b\<close> in their order over
  \<open>a\<close>: a key of \<open>a\<close> keeps its place and takes the value of \<open>b\<close>, a new key is
  appended.
\<close>

type_synonym entries = "(string \<times> string list) list"

definition object_spread :: "('k \<times> 'v) list \<Rightarrow> ('k \<times> 'v) list \<Rightarrow> ('k \<times> 'v) list" where
  "object_spread a b = fold (\<lambda>(k, v). AList.update k v) b a"

text \<open>
  What the file imports and does not define is a parameter: \<^verbatim>\<open>path.join\<close>, the
  validity of the source text of a \<^verbatim>\<open>new RegExp\<close> (which throws a
  \<^verbatim>\<open>SyntaxError\<close> otherwise), the resolver, the page discovery \<^verbatim>\<open>getPages\<close>
  (awaited, so that a rejection is \<open>Inl\<close>) and three constants of
  \<^verbatim>\<open>lib/constants\<close>.
\<close>

record getPagesOptions =
  nextPagesDir :: string
  gp_dev :: bool
  gp_isServer :: bool
  gp_pageExtensions :: string

record env =
  path_join :: "string list \<Rightarrow> string"
  regexp_valid :: "string \<Rightarrow> bool"
  resolve :: resolver
  getPages :: "string \<Rightarrow> getPagesOptions \<Rightarrow> error + entries"
  SERVER_DIRECTORY :: string
  NEXT_PROJECT_ROOT_DIST :: string
  DEFAULT_PAGES_DIR :: string

record nextConfig =
  distDir :: string
  pageExtensions :: "string list"

text \<open>\<^verbatim>\<open>Array.prototype.join\<close> on a list of strings.\<close>

fun join :: "string \<Rightarrow> string list \<Rightarrow> string" where
  "join sep [] = []"
| "join sep [x] = x"
| "join sep (x # y # xs) = x @ sep @ join sep (y # xs)"

definition clientEntries :: "env \<Rightarrow> bool \<Rightarrow> bool \<Rightarrow> entries" where
  "clientEntries e dev isServer =
     (if \<not> isServer then
        [(''main.js'', []),
         (''static/commons/main.js'',
          filter (\<lambda>p. p \<noteq> [])
            [path_join e [NEXT_PROJECT_ROOT_DIST e, ''client'',
                          (if dev then ''next-dev'' else ''next'')]])]
      else [])"

text \<open>
  The keys of the configuration that the properties below read, with the functions
  among them as functions. \<^verbatim>\<open>entry\<close> is a thunk whose promise resolves to a mapping
  or rejects. The keys \<^verbatim>\<open>cache\<close>, \<^verbatim>\<open>performance\<close>, \<^verbatim>\<open>resolve\<close>,
  \<^verbatim>\<open>resolveLoader\<close>, \<^verbatim>\<open>module\<close>, \<^verbatim>\<open>plugins\<close> and the remaining keys of
  \<^verbatim>\<open>output\<close> are constants or lists of plugin objects that nothing below depends on;
  they are left out.
\<close>

record webpackConfig =
  wc_mode :: string
  wc_devtool :: "string option"
  wc_name :: string
  wc_target :: string
  wc_externals :: "(string \<Rightarrow> string \<Rightarrow> callback) list"
  wc_optimization :: optimization
  wc_recordsPath :: string
  wc_context :: string
  wc_entry :: "unit \<Rightarrow> error + entries"
  wc_output_path :: string
  wc_output_filename :: "chunk \<Rightarrow> string"
  wc_output_chunkFilename :: string

text \<open>
  The second argument of the user's \<^verbatim>\<open>config.webpack\<close> function
  (\<^verbatim>\<open>defaultLoaders\<close> left out). The function itself is an argument of
  \<open>getBaseWebpackConfig\<close> below, \<open>None\<close> when \<^verbatim>\<open>config.webpack\<close> is not a
  function; it returns the configuration that replaces the assembled one, or throws.
\<close>

record hookOptions =
  ho_dir :: string
  ho_dev :: bool
  ho_isServer :: bool
  ho_buildId :: string
  ho_config :: nextConfig
  ho_totalPages :: nat

type_synonym hook = "webpackConfig \<Rightarrow> hookOptions \<Rightarrow> error + webpackConfig"

definition entry :: "entries \<Rightarrow> entries \<Rightarrow> unit \<Rightarrow> error + entries" where
  "entry client pagesEntries = (\<lambda>_. Inr (object_spread client pagesEntries))"

definition outputPath :: "env \<Rightarrow> string \<Rightarrow> bool \<Rightarrow> nextConfig \<Rightarrow> string" where
  "outputPath e dir isServer config =
     path_join e [dir, distDir config, (if isServer then SERVER_DIRECTORY e else [])]"

text \<open>The object literal assigned to \<^verbatim>\<open>webpackConfig\<close>.\<close>

definition assembledConfig ::
  "env \<Rightarrow> string \<Rightarrow> bool \<Rightarrow> bool \<Rightarrow> nextConfig \<Rightarrow> entries \<Rightarrow> webpackConfig" where
  "assembledConfig e dir dev isServer config pagesEntries =
     \<lparr>wc_mode = (if dev then ''development'' else ''production''),
      wc_devtool = (if dev then Some ''cheap-module-source-map'' else None),
      wc_name = (if isServer then ''server'' else ''client''),
      wc_target = (if isServer then ''node'' else ''web''),
      wc_externals = externalsConfig (resolve e) dir isServer,
      wc_optimization = optimizationConfig dir dev isServer (length pagesEntries),
      wc_recordsPath = path_join e [outputPath e dir isServer config, ''records.json''],
      wc_context = dir,
      wc_entry = entry (clientEntries e dev isServer) pagesEntries,
      wc_output_path = outputPath e dir isServer config,
      wc_output_filename = filename dev,
      wc_output_chunkFilename =
        (if isServer then (if dev then ''[name]'' else ''[chunkhash]'') @ ''.js''
         else ''static/chunks/'' @ (if dev then ''[name]'' else ''[chunkhash]'') @ ''.js'')\<rparr>"

text \<open>
  The body of the closing rewrite, after the mapping of the original thunk has been
  awaited and copied. The test \<^verbatim>\<open>typeof entry['main.js'] !== 'undefined'\<close> is that
  the key has a value. The array literal spreads \<^verbatim>\<open>entry['main.js']\<close> and then
  \<^verbatim>\<open>entry['static/commons/main.js']\<close>; spreading \<^verbatim>\<open>undefined\<close> into an array
  throws a \<^verbatim>\<open>TypeError\<close>. The copy \<^verbatim>\<open>{...await originalEntry()}\<close> has the keys and
  values of the original in the same order: here it is the same list, and it is a new
  object in the store model further down.
\<close>

definition rewriteEntry :: "entries \<Rightarrow> error + entries" where
  "rewriteEntry e =
     (case map_of e ''main.js'' of
        None \<Rightarrow> Inr e
      | Some main \<Rightarrow>
          (case map_of e ''static/commons/main.js'' of
             None \<Rightarrow> Inl TypeError
           | Some commons \<Rightarrow>
               Inr (AList.delete ''main.js''
                     (AList.update ''static/commons/main.js'' (main @ commons) e))))"

definition mainJsCompatEntry :: "(unit \<Rightarrow> error + entries) \<Rightarrow> unit \<Rightarrow> error + entries" where
  "mainJsCompatEntry originalEntry =
     (\<lambda>_. case originalEntry () of Inl err \<Rightarrow> Inl err | Inr e \<Rightarrow> rewriteEntry e)"

text \<open>The call of \<^verbatim>\<open>config.webpack\<close>, made only when it is a function.\<close>

definition userOverride :: "hook option \<Rightarrow> webpackConfig \<Rightarrow> hookOptions \<Rightarrow> error + webpackConfig" where
  "userOverride config_webpack webpackConfig opts =
     (case config_webpack of
        None \<Rightarrow> Inr webpackConfig
      | Some f \<Rightarrow> f webpackConfig opts)"

text \<open>
  The source text of the regular expression of \<^verbatim>\<open>defaultLoaders.hotSelfAccept\<close>,
  built from the page extensions before anything else.
\<close>

definition hotSelfAcceptExtensions :: "nextConfig \<Rightarrow> string" where
  "hotSelfAcceptExtensions config =
     [CHR 0x5C] @ ''.+('' @ join ''|'' (pageExtensions config) @ '')$''"

definition getBaseWebpackConfig ::
  "env \<Rightarrow> string \<Rightarrow> bool \<Rightarrow> bool \<Rightarrow> string \<Rightarrow> nextConfig \<Rightarrow> hook option \<Rightarrow> error + webpackConfig" where
  "getBaseWebpackConfig e dir dev isServer buildId config config_webpack =
     (if \<not> regexp_valid e (hotSelfAcceptExtensions config) then Inl SyntaxError
      else
        case getPages e dir
               \<lparr>nextPagesDir = DEFAULT_PAGES_DIR e, gp_dev = dev, gp_isServer = isServer,
                gp_pageExtensions = join ''|'' (pageExtensions config)\<rparr> of
          Inl err \<Rightarrow> Inl err
        | Inr pagesEntries \<Rightarrow>
            let totalPages = length pagesEntries;
                webpackConfig = assembledConfig e dir dev isServer config pagesEntries
            in case userOverride config_webpack webpackConfig
                      \<lparr>ho_dir = dir, ho_dev = dev, ho_isServer = isServer,
                       ho_buildId = buildId, ho_config = config,
                       ho_totalPages = totalPages\<rparr> of
                 Inl err \<Rightarrow> Inl err
               | Inr wc \<Rightarrow> Inr (wc\<lparr>wc_entry := mainJsCompatEntry (wc_entry wc)\<rparr>))"

subsection \<open>The entry thunks over a store\<close>

text \<open>
  Whether a thunk writes to an object that already exists cannot be read off a pure
  function, so the two entry thunks are given a second time over an explicit store. An
  address is an index into the list of cells of its kind: an object cell is the list of
  its keys, each with the address of a module array, and an array cell is a list of module
  paths. Allocation appends a cell; \<^verbatim>\<open>obj[k] = v\<close> and \<^verbatim>\<open>delete obj[k]\<close> rewrite
  the cell of \<open>obj\<close> in place. A thunk takes the store and returns its result (the address
  of the mapping, or an error) with the store it leaves.
\<close>

record store =
  objects :: "(string \<times> nat) list list"
  arrays :: "string list list"

definition new_object :: "(string \<times> nat) list \<Rightarrow> store \<Rightarrow> nat \<times> store" where
  "new_object props s = (length (objects s), s\<lparr>objects := objects s @ [props]\<rparr>)"

definition new_array :: "string list \<Rightarrow> store \<Rightarrow> nat \<times> store" where
  "new_array xs s = (length (arrays s), s\<lparr>arrays := arrays s @ [xs]\<rparr>)"

definition set_property :: "nat \<Rightarrow> string \<Rightarrow> nat \<Rightarrow> store \<Rightarrow> store" where
  "set_property a k v s =
     s\<lparr>objects := (objects s)[a := AList.update k v (objects s ! a)]\<rparr>"

definition delete_property :: "nat \<Rightarrow> string \<Rightarrow> store \<Rightarrow> store" where
  "delete_property a k s =
     s\<lparr>objects := (objects s)[a := AList.delete k (objects s ! a)]\<rparr>"

type_synonym thunk = "store \<Rightarrow> (error + nat) \<times> store"

text \<open>
  The thunk \<^verbatim>\<open>entry\<close> closes over the objects \<^verbatim>\<open>clientEntries\<close> and
  \<^verbatim>\<open>pagesEntries\<close>, here their addresses; the object literal it returns is a new
  object whose values are the arrays of the two.
\<close>

definition entry_store :: "nat \<Rightarrow> nat \<Rightarrow> thunk" where
  "entry_store client pages s =
     (let (a, s1) = new_object (object_spread (objects s ! client) (objects s ! pages)) s
      in (Inr a, s1))"

text \<open>
  The closing rewrite: the copy \<^verbatim>\<open>{...await originalEntry()}\<close> is a new object, the
  array literal is a new array, and the assignment and the \<^verbatim>\<open>delete\<close> write to
  \<^verbatim>\<open>entry\<close>, the copy (here \<open>entry'\<close>).
\<close>

definition mainJsCompatEntry_store :: "thunk \<Rightarrow> thunk" where
  "mainJsCompatEntry_store originalEntry s =
     (case originalEntry s of
        (Inl err, s1) \<Rightarrow> (Inl err, s1)
      | (Inr original, s1) \<Rightarrow>
          let (entry', s2) = new_object (objects s1 ! original) s1 in
          (case map_of (objects s2 ! entry') ''main.js'' of
             None \<Rightarrow> (Inr entry', s2)
           | Some main \<Rightarrow>
               (case map_of (objects s2 ! entry') ''static/commons/main.js'' of
                  None \<Rightarrow> (Inl TypeError, s2)
                | Some commons \<Rightarrow>
                    let (merged, s3) = new_array (arrays s2 ! main @ arrays s2 ! commons) s2;
                        s4 = set_property entry' ''static/commons/main.js'' merged s3;
                        s5 = delete_property entry' ''main.js'' s4
                    in (Inr entry', s5))))"

text \<open>Invoking a thunk \<open>n\<close> times in a row, each time on the store the last one left.\<close>

fun invoke_times :: "nat \<Rightarrow> thunk \<Rightarrow> store \<Rightarrow> (error + nat) list \<times> store" where
  "invoke_times 0 t s = ([], s)"
| "invoke_times (Suc n) t s =
     (case t s of (r, s1) \<Rightarrow>
        (case invoke_times n t s1 of (rs, s2) \<Rightarrow> (r # rs, s2)))"

text \<open>
  The mapping that an object of the store stands for, and the result that a thunk's
  result stands for, read in a given store.
\<close>

definition read_entries :: "store \<Rightarrow> nat \<Rightarrow> entries" where
  "read_entries s a = map (\<lambda>(k, r). (k, arrays s ! r)) (objects s ! a)"

definition read_result :: "store \<Rightarrow> error + nat \<Rightarrow> error + entries" where
  "read_result s r = (case r of Inl err \<Rightarrow> Inl err | Inr a \<Rightarrow> Inr (read_entries s a))"

text \<open>
  An address is valid when its cell exists: a JavaScript reference always is. The
  second store extends the first when every cell of the first is still there, unchanged.
\<close>

definition valid_object :: "store \<Rightarrow> nat \<Rightarrow> bool" where
  "valid_object s a =
     (a < length (objects s) \<and>
      list_all (\<lambda>(k, r). r < length (arrays s)) (objects s ! a))"

definition store_le :: "store \<Rightarrow> store \<Rightarrow> bool" where
  "store_le s s' = (prefix (objects s) (objects s') \<and> prefix (arrays s) (arrays s'))"

subsection \<open>A concrete environment\<close>

text \<open>
  The closed instances below run the assembler in this environment: paths are joined with
  a slash, every regular expression source is valid, the resolver finds every request
  under \<^verbatim>\<open>node_modules\<close> of the base directory, and page discovery finds one page.
\<close>

definition sample_env :: env where
  "sample_env =
     \<lparr>path_join = join ''/'',
      regexp_valid = (\<lambda>_. True),
      resolve = (\<lambda>request basedir. Inr (basedir @ ''/node_modules/'' @ request @ ''/index.js'')),
      getPages = (\<lambda>dir opts. Inr [(''bundles/pages/index.js'', [''./pages/index.js''])]),
      SERVER_DIRECTORY = ''server'',
      NEXT_PROJECT_ROOT_DIST = ''/next/dist'',
      DEFAULT_PAGES_DIR = ''/next/dist/pages''\<rparr>"

definition sample_config :: nextConfig where
  "sample_config = \<lparr>distDir = ''.next'', pageExtensions = [''jsx'', ''js'']\<rparr>"

text \<open>
  A store for that environment: object 0 is \<^verbatim>\<open>clientEntries\<close> of the client
  production build, object 1 is \<^verbatim>\<open>pagesEntries\<close>.
\<close>

definition sample_store :: store where
  "sample_store =
     \<lparr>objects = [[(''main.js'', 0), (''static/commons/main.js'', 1)],
                  [(''bundles/pages/index.js'', 2)]],
      arrays = [[], [''/next/dist/client/next''], [''./pages/index.js'']]\<rparr>"

text \<open>
  A user's function of the usual shape: it replaces the entry thunk by one that awaits the
  thunk it found and puts a module in front of the modules of \<^verbatim>\<open>main.js\<close>,
  \<^verbatim>\<open>entries['main.js'].unshift('./polyfills.js')\<close>, and returns the mapping it was
  given. It is stated over values first and over the store second, where
  \<^verbatim>\<open>unshift\<close> writes to the array that the mapping refers to.
\<close>

definition polyfills_hook :: hook where
  "polyfills_hook wc opts =
     Inr (wc\<lparr>wc_entry :=
       (\<lambda>_. case wc_entry wc () of
               Inl err \<Rightarrow> Inl err
             | Inr entries \<Rightarrow>
                 (case map_of entries ''main.js'' of
                    None \<Rightarrow> Inl TypeError
                  | Some main \<Rightarrow>
                      Inr (AList.update ''main.js'' (''./polyfills.js'' # main) entries)))\<rparr>)"

definition unshift :: "nat \<Rightarrow> string \<Rightarrow> store \<Rightarrow> store" where
  "unshift a x s = s\<lparr>arrays := (arrays s)[a := x # arrays s ! a]\<rparr>"

definition polyfills_entry_store :: "thunk \<Rightarrow> thunk" where
  "polyfills_entry_store originalEntry s =
     (case originalEntry s of
        (Inl err, s1) \<Rightarrow> (Inl err, s1)
      | (Inr entries, s1) \<Rightarrow>
          (case map_of (objects s1 ! entries) ''main.js'' of
             None \<Rightarrow> (Inl TypeError, s1)
           | Some main \<Rightarrow> (Inr entries, unshift main ''./polyfills.js'' s1)))"

text \<open>
  The same function written without \<^verbatim>\<open>unshift\<close>: it returns a new object,
  \<^verbatim>\<open>{...entries, 'main.js': ['./polyfills.js', ...entries['main.js']]}\<close>.
\<close>

definition polyfills_copy_entry_store :: "thunk \<Rightarrow> thunk" where
  "polyfills_copy_entry_store originalEntry s =
     (case originalEntry s of
        (Inl err, s1) \<Rightarrow> (Inl err, s1)
      | (Inr entries, s1) \<Rightarrow>
          (case map_of (objects s1 ! entries) ''main.js'' of
             None \<Rightarrow> (Inl TypeError, s1)
           | Some main \<Rightarrow>
               let (front, s2) = new_array (''./polyfills.js'' # arrays s1 ! main) s1;
                   (copy, s3) =
                     new_object (AList.update ''main.js'' front (objects s2 ! entries)) s2
               in (Inr copy, s3)))"

section \<open>Properties\<close>

subsection \<open>The commons threshold\<close>

text \<open>
  C1, as stated, fails: for five pages the client production result has
  \<^verbatim>\<open>minChunks\<close> equal to 2.5, where the rounded threshold of the claim is 3. The code
  multiplies by 0.5 and does not round.
\<close>

theorem C1_threshold_not_rounded:
  "commons_minChunks (optimizationConfig ''/app'' False False 5) = Some (5 / 2) \<and>
   spec_threshold 5 = 3 \<and>
   commons_minChunks (optimizationConfig ''/app'' False False 5) \<noteq> Some (spec_threshold 5)"
proof -
  have a: "commons_minChunks (optimizationConfig ''/app'' False False 5) = Some (5 / 2)"
    by (simp add: commons_minChunks_def optimizationConfig_def Let_def)
  have b: "spec_threshold 5 = 3"
    by (simp add: spec_threshold_def ceiling_eq_iff)
  from a b show ?thesis by simp
qed

lemma ceiling_half_even:
  assumes "even n"
  shows "of_int \<lceil>(of_nat n :: rat) * (1 / 2)\<rceil> = (of_nat n :: rat) * (1 / 2)"
proof -
  from assms obtain k where n: "n = 2 * k" by (auto elim: evenE)
  have "(of_nat n :: rat) * (1 / 2) = of_int (int k)" by (simp add: n)
  then show ?thesis by (metis ceiling_of_int)
qed

text \<open>
  C1, amended: for the client production result, \<^verbatim>\<open>minChunks\<close> is 2 for every page
  count up to 2 and is the page count times 0.5, not rounded, for every larger page
  count. This is the rounded threshold of the specification whenever the page count is
  even; it is 5 for ten pages and 2.5 for five.
\<close>

theorem C1_threshold_amended:
  "commons_minChunks (optimizationConfig dir False False n) =
     Some (if n > 2 then of_nat n * (1 / 2) else 2) \<and>
   (even n \<longrightarrow>
      commons_minChunks (optimizationConfig dir False False n) = Some (spec_threshold n)) \<and>
   commons_minChunks (optimizationConfig dir False False 10) = Some 5 \<and>
   commons_minChunks (optimizationConfig dir False False 5) = Some (5 / 2)"
proof -
  have a: "commons_minChunks (optimizationConfig dir False False m) =
      Some (if m > 2 then of_nat m * (1 / 2) else 2)" for m
    by (simp add: commons_minChunks_def optimizationConfig_def Let_def)
  have b: "even n \<longrightarrow> (if n > 2 then (of_nat n :: rat) * (1 / 2) else 2) = spec_threshold n"
    using ceiling_half_even [of n] by (simp add: spec_threshold_def)
  have c: "commons_minChunks (optimizationConfig dir False False 10) = Some 5"
    by (simp add: a)
  have d: "commons_minChunks (optimizationConfig dir False False 5) = Some (5 / 2)"
    by (simp add: a)
  from a [of n] b c d show ?thesis by simp
qed

theorem C1_threshold_amended_witness:
  "even (4 :: nat) \<and>
   commons_minChunks (optimizationConfig ''/app'' False False 4) = Some 2 \<and>
   spec_threshold 4 = 2"
proof -
  have e: "even (4 :: nat)" by simp
  have "commons_minChunks (optimizationConfig ''/app'' False False 4) = Some (spec_threshold 4)"
    using C1_threshold_amended [of "''/app''" 4] e by blast
  moreover have "spec_threshold 4 = 2"
    by (simp add: spec_threshold_def)
  ultimately show ?thesis using e by simp
qed

subsection \<open>The server optimization result\<close>

text \<open>
  C8: for every \<^verbatim>\<open>dev\<close> flag and every page count, the server result
  (\<^verbatim>\<open>isServer = true\<close>) has \<^verbatim>\<open>splitChunks: false\<close> and \<^verbatim>\<open>minimize: false\<close>.
\<close>

theorem C8_server_no_split_no_minimize:
  "splitChunks (optimizationConfig dir dev True totalPages) = SplitChunksFalse \<and>
   minimize (optimizationConfig dir dev True totalPages) = Some False"
  by (simp add: optimizationConfig_def)

subsection \<open>The externals handler\<close>

lemma search_here: "m s \<Longrightarrow> search m s"
  by (cases s) simp_all

lemma search_append: "m s \<Longrightarrow> search m (pre @ s)"
  by (induction pre) (simp_all add: search_here)

text \<open>
  A path that contains the default pages directory, written with slashes or with
  backslashes, passes the first test of the handler.
\<close>

lemma default_pages_segment:
  "re_default_pages (pre @ ''node_modules/next/dist/pages'' @ post)"
  unfolding re_default_pages_def
  by (rule search_append) (simp add: lits_def is_sep_def)

lemma default_pages_segment_backslash:
  "re_default_pages
     (pre @ ''node_modules'' @ [CHR 0x5C] @ ''next'' @ [CHR 0x5C] @ ''dist'' @ [CHR 0x5C] @
      ''pages'' @ post)"
  unfolding re_default_pages_def
  by (rule search_append) (simp add: lits_def is_sep_def)

lemma error_page_is_dependency_script:
  "re_node_modules_js ''/app/node_modules/next/dist/pages/_error.js''"
  by (simp add: re_node_modules_js_def lits_def is_sep_def dot_star_js_end_def
      ends_with_def line_terminator_def)

text \<open>
  C9: on the server, a request whose resolved path contains the directory of the default
  pages (\<^verbatim>\<open>node_modules/next/dist/pages\<close>, the test of the code) is answered with
  \<^verbatim>\<open>callback()\<close>: it is bundled and never made an external, whatever else the path
  matches. In the instance the path is also under \<^verbatim>\<open>node_modules\<close> and ends in
  \<^verbatim>\<open>.js\<close>, which the later test would make an external.
\<close>

theorem C9_default_pages_bundled:
  assumes "r request dir = Inr res" and "re_default_pages res"
  shows "map (\<lambda>h. h ctx request) (externalsConfig r dir True) = [CallbackNone]"
  using assms by (simp add: externalsConfig_def externalsHandler_def)

theorem C9_default_pages_bundled_witness:
  "(\<lambda>request basedir. Inr (basedir @ ''/node_modules/'' @ request))
       ''next/dist/pages/_error.js'' ''/app''
     = (Inr ''/app/node_modules/next/dist/pages/_error.js'' :: error + string) \<and>
   re_default_pages ''/app/node_modules/next/dist/pages/_error.js'' \<and>
   re_node_modules_js ''/app/node_modules/next/dist/pages/_error.js'' \<and>
   map (\<lambda>h. h ''/app/pages'' ''next/dist/pages/_error.js'')
     (externalsConfig (\<lambda>request basedir. Inr (basedir @ ''/node_modules/'' @ request))
        ''/app'' True)
     = [CallbackNone]"
proof -
  let ?r = "(\<lambda>request basedir. Inr (basedir @ ''/node_modules/'' @ request)) :: resolver"
  have a: "?r ''next/dist/pages/_error.js'' ''/app''
      = Inr ''/app/node_modules/next/dist/pages/_error.js''"
    by simp
  have b: "re_default_pages ''/app/node_modules/next/dist/pages/_error.js''"
    using default_pages_segment [of "''/app/''" "''/_error.js''"] by simp
  from C9_default_pages_bundled [where r = ?r and request = "''next/dist/pages/_error.js''"
      and dir = "''/app''" and res = "''/app/node_modules/next/dist/pages/_error.js''"
      and ctx = "''/app/pages''"] b
  have "map (\<lambda>h. h ''/app/pages'' ''next/dist/pages/_error.js'')
      (externalsConfig ?r ''/app'' True) = [CallbackNone]"
    by simp
  with a b error_page_is_dependency_script show ?thesis by simp
qed

text \<open>
  C10: on the server, a request whose resolution fails is answered with
  \<^verbatim>\<open>callback()\<close>: no external is named and the error of the resolver is not passed
  on.
\<close>

theorem C10_resolution_failure_bundled:
  assumes "r request dir = Inl err"
  shows "map (\<lambda>h. h ctx request) (externalsConfig r dir True) = [CallbackNone]"
  using assms by (simp add: externalsConfig_def externalsHandler_def)

theorem C10_resolution_failure_bundled_witness:
  "(\<lambda>request basedir. Inl (Thrown ''Cannot find module'')) ''./missing'' ''/app''
     = (Inl (Thrown ''Cannot find module'') :: error + string) \<and>
   map (\<lambda>h. h ''/app/pages'' ''./missing'')
     (externalsConfig (\<lambda>request basedir. Inl (Thrown ''Cannot find module'')) ''/app'' True)
     = [CallbackNone]"
proof -
  let ?r = "(\<lambda>request basedir. Inl (Thrown ''Cannot find module'')) :: resolver"
  have a: "?r ''./missing'' ''/app'' = Inl (Thrown ''Cannot find module'')" by simp
  from C10_resolution_failure_bundled [where r = ?r and request = "''./missing''"
      and dir = "''/app''" and err = "Thrown ''Cannot find module''" and ctx = "''/app/pages''"]
  have "map (\<lambda>h. h ''/app/pages'' ''./missing'') (externalsConfig ?r ''/app'' True)
      = [CallbackNone]"
    by simp
  with a show ?thesis by simp
qed

subsection \<open>The output file name\<close>

lemma getSubstitution_plain:
  "CHR ''$'' \<notin> set r \<Longrightarrow> getSubstitution matched before after r = r"
  by (induction matched before after r rule: getSubstitution.induct) auto

text \<open>
  A hash that holds a replacement pattern is expanded by \<^verbatim>\<open>replace\<close>: the hash
  \<^verbatim>\<open>$&\<close> is written as the matched \<^verbatim>\<open>.js\<close>.
\<close>

lemma filename_hash_pattern_expanded:
  "filename False \<lparr>chunk_name = ''static/commons/main.js'', renderedHash = ''$&''\<rparr>
     = ''static/commons/main-.js.js''"
  by (simp add: filename_def replace_js_end_def ends_with_def)

text \<open>
  C7, as stated, fails: for a page chunk in production, and for the runtime chunk in
  development, the function returns the text \<^verbatim>\<open>[name]\<close>, which is not the name of
  the chunk.
\<close>

theorem C7_other_chunks_placeholder:
  "filename False \<lparr>chunk_name = ''bundles/pages/index.js'', renderedHash = ''0123abcd''\<rparr>
     = ''[name]'' \<and>
   filename False \<lparr>chunk_name = ''bundles/pages/index.js'', renderedHash = ''0123abcd''\<rparr>
     \<noteq> ''bundles/pages/index.js'' \<and>
   filename True \<lparr>chunk_name = ''static/commons/runtime.js'', renderedHash = ''0123abcd''\<rparr>
     \<noteq> ''static/commons/runtime.js''"
  by (simp add: filename_def)

text \<open>
  C7, amended: in production, for a chunk named \<^verbatim>\<open>static/commons/main.js\<close> or
  \<^verbatim>\<open>static/commons/runtime.js\<close> whose hash holds no dollar sign, the function returns
  the name with a hyphen and the hash put before the extension \<^verbatim>\<open>.js\<close>; for every
  other chunk name, and for every chunk in development, it returns the placeholder
  \<^verbatim>\<open>[name]\<close> of the bundler, not the name itself.
\<close>

theorem C7_filename_amended:
  "(\<not> dev \<and> CHR ''$'' \<notin> set (renderedHash c) \<longrightarrow>
      (chunk_name c = ''static/commons/main.js'' \<longrightarrow>
         filename dev c = ''static/commons/main'' @ ''-'' @ renderedHash c @ ''.js'') \<and>
      (chunk_name c = ''static/commons/runtime.js'' \<longrightarrow>
         filename dev c = ''static/commons/runtime'' @ ''-'' @ renderedHash c @ ''.js'')) \<and>
   (dev \<or> (chunk_name c \<noteq> ''static/commons/main.js'' \<and>
            chunk_name c \<noteq> ''static/commons/runtime.js'') \<longrightarrow>
      filename dev c = ''[name]'')"
proof -
  have sub: "CHR ''$'' \<notin> set (renderedHash c) \<Longrightarrow>
      getSubstitution m b a (''-'' @ renderedHash c @ ''.js'') = ''-'' @ renderedHash c @ ''.js''"
    for m b a
    by (rule getSubstitution_plain) simp
  have main: "\<not> dev \<Longrightarrow> CHR ''$'' \<notin> set (renderedHash c) \<Longrightarrow>
      chunk_name c = ''static/commons/main.js'' \<Longrightarrow>
      filename dev c = ''static/commons/main'' @ ''-'' @ renderedHash c @ ''.js''"
    using sub by (simp add: filename_def replace_js_end_def ends_with_def)
  have runtime: "\<not> dev \<Longrightarrow> CHR ''$'' \<notin> set (renderedHash c) \<Longrightarrow>
      chunk_name c = ''static/commons/runtime.js'' \<Longrightarrow>
      filename dev c = ''static/commons/runtime'' @ ''-'' @ renderedHash c @ ''.js''"
    using sub by (simp add: filename_def replace_js_end_def ends_with_def)
  have other: "dev \<or> (chunk_name c \<noteq> ''static/commons/main.js'' \<and>
            chunk_name c \<noteq> ''static/commons/runtime.js'') \<Longrightarrow> filename dev c = ''[name]''"
    by (auto simp add: filename_def)
  from main runtime other show ?thesis by blast
qed

theorem C7_filename_amended_witness:
  "CHR ''$'' \<notin> set ''0123abcd'' \<and>
   filename False \<lparr>chunk_name = ''static/commons/runtime.js'', renderedHash = ''0123abcd''\<rparr>
     = ''static/commons/runtime-0123abcd.js'' \<and>
   filename True \<lparr>chunk_name = ''static/commons/runtime.js'', renderedHash = ''0123abcd''\<rparr>
     = ''[name]''"
proof -
  have h: "CHR ''$'' \<notin> set ''0123abcd''" by simp
  have "filename False \<lparr>chunk_name = ''static/commons/runtime.js'', renderedHash = ''0123abcd''\<rparr>
     = ''static/commons/runtime'' @ ''-'' @ ''0123abcd'' @ ''.js''"
    using C7_filename_amended [of False
        "\<lparr>chunk_name = ''static/commons/runtime.js'', renderedHash = ''0123abcd''\<rparr>"] h
    by simp
  moreover have "filename True
      \<lparr>chunk_name = ''static/commons/runtime.js'', renderedHash = ''0123abcd''\<rparr> = ''[name]''"
    using C7_filename_amended [of True
        "\<lparr>chunk_name = ''static/commons/runtime.js'', renderedHash = ''0123abcd''\<rparr>"]
    by simp
  ultimately show ?thesis using h by simp
qed

subsection \<open>The closing rewrite of the entry mapping\<close>

lemma map_of_object_spread_Some:
  "map_of a k \<noteq> None \<Longrightarrow> map_of (object_spread a b) k \<noteq> None"
  unfolding object_spread_def
  by (induction b arbitrary: a) (auto simp add: update_conv')

lemma rewriteEntry_absent:
  "map_of e ''main.js'' = None \<Longrightarrow> rewriteEntry e = Inr e"
  by (simp add: rewriteEntry_def)

lemma rewriteEntry_present:
  "map_of e ''main.js'' = Some A \<Longrightarrow> map_of e ''static/commons/main.js'' = Some B \<Longrightarrow>
   rewriteEntry e =
     Inr (AList.delete ''main.js'' (AList.update ''static/commons/main.js'' (A @ B) e))"
  by (simp add: rewriteEntry_def)

lemma map_of_rewritten:
  "map_of (AList.delete ''main.js'' (AList.update ''static/commons/main.js'' v e)) k =
     (if k = ''main.js'' then None
      else if k = ''static/commons/main.js'' then Some v
      else map_of e k)"
  by (simp add: delete_conv' update_conv')

text \<open>The assembler in the concrete environment, up to the call of the user's function.\<close>

lemma sample_getBaseWebpackConfig:
  "getBaseWebpackConfig sample_env dir dev isServer buildId sample_config config_webpack =
     (case userOverride config_webpack
             (assembledConfig sample_env dir dev isServer sample_config
                [(''bundles/pages/index.js'', [''./pages/index.js''])])
             \<lparr>ho_dir = dir, ho_dev = dev, ho_isServer = isServer, ho_buildId = buildId,
              ho_config = sample_config, ho_totalPages = 1\<rparr> of
        Inl err \<Rightarrow> Inl err
      | Inr wc \<Rightarrow> Inr (wc\<lparr>wc_entry := mainJsCompatEntry (wc_entry wc)\<rparr>))"
  by (simp add: getBaseWebpackConfig_def sample_env_def Let_def)

text \<open>
  C2, as stated, fails: for a mapping that has the key \<^verbatim>\<open>main.js\<close> and not the key
  \<^verbatim>\<open>static/commons/main.js\<close> the rewritten thunk returns no mapping at all, it
  rejects with a \<^verbatim>\<open>TypeError\<close>; so the key is neither set nor removed.
\<close>

theorem C2_main_without_commons:
  "mainJsCompatEntry (\<lambda>_. Inr [(''main.js'', [''./polyfills.js''])]) () = Inl TypeError"
  by (simp add: mainJsCompatEntry_def rewriteEntry_def)

text \<open>
  C2, amended: for every mapping \<open>e\<close> returned by the thunk that the rewrite wraps: if
  \<^verbatim>\<open>main.js\<close> is absent, the rewritten thunk returns \<open>e\<close> unchanged; if
  \<^verbatim>\<open>main.js\<close> and \<^verbatim>\<open>static/commons/main.js\<close> are both present, with the lists
  \<open>A\<close> and \<open>B\<close>, it returns \<open>e\<close> with \<^verbatim>\<open>static/commons/main.js\<close> set to \<open>A\<close>
  followed by \<open>B\<close> and with \<^verbatim>\<open>main.js\<close> removed, every other key as it was. In
  particular \<^verbatim>\<open>{main.js: [a], static/commons/main.js: [b]}\<close> becomes
  \<^verbatim>\<open>{static/commons/main.js: [a, b]}\<close>.
\<close>

theorem C2_rewrite_amended:
  assumes "originalEntry () = Inr e"
  shows "(map_of e ''main.js'' = None \<longrightarrow> mainJsCompatEntry originalEntry () = Inr e) \<and>
    (\<forall>A B. map_of e ''main.js'' = Some A \<and> map_of e ''static/commons/main.js'' = Some B \<longrightarrow>
       (\<exists>m. mainJsCompatEntry originalEntry () = Inr m \<and>
          m = AList.delete ''main.js'' (AList.update ''static/commons/main.js'' (A @ B) e) \<and>
          map_of m ''static/commons/main.js'' = Some (A @ B) \<and>
          map_of m ''main.js'' = None \<and>
          (\<forall>k. k \<noteq> ''main.js'' \<and> k \<noteq> ''static/commons/main.js'' \<longrightarrow>
             map_of m k = map_of e k))) \<and>
    rewriteEntry [(''main.js'', [a]), (''static/commons/main.js'', [b])] =
      Inr [(''static/commons/main.js'', [a, b])]"
proof -
  have absent: "map_of e ''main.js'' = None \<longrightarrow> mainJsCompatEntry originalEntry () = Inr e"
    using assms by (simp add: mainJsCompatEntry_def rewriteEntry_absent)
  have present: "\<exists>m. mainJsCompatEntry originalEntry () = Inr m \<and>
          m = AList.delete ''main.js'' (AList.update ''static/commons/main.js'' (A @ B) e) \<and>
          map_of m ''static/commons/main.js'' = Some (A @ B) \<and>
          map_of m ''main.js'' = None \<and>
          (\<forall>k. k \<noteq> ''main.js'' \<and> k \<noteq> ''static/commons/main.js'' \<longrightarrow>
             map_of m k = map_of e k)"
    if "map_of e ''main.js'' = Some A" "map_of e ''static/commons/main.js'' = Some B" for A B
    using assms that
    by (simp add: mainJsCompatEntry_def rewriteEntry_present map_of_rewritten)
  have example: "rewriteEntry [(''main.js'', [a]), (''static/commons/main.js'', [b])] =
      Inr [(''static/commons/main.js'', [a, b])]"
    by (simp add: rewriteEntry_def)
  from absent present example show ?thesis by blast
qed

theorem C2_rewrite_amended_witness:
  "(\<lambda>_. Inr [(''main.js'', [''./a.js'']), (''static/commons/main.js'', [''./b.js'']),
             (''bundles/pages/index.js'', [''./pages/index.js''])]) ()
     = (Inr [(''main.js'', [''./a.js'']), (''static/commons/main.js'', [''./b.js'']),
             (''bundles/pages/index.js'', [''./pages/index.js''])] :: error + entries) \<and>
   mainJsCompatEntry
     (\<lambda>_. Inr [(''main.js'', [''./a.js'']), (''static/commons/main.js'', [''./b.js'']),
               (''bundles/pages/index.js'', [''./pages/index.js''])]) ()
     = Inr [(''static/commons/main.js'', [''./a.js'', ''./b.js'']),
            (''bundles/pages/index.js'', [''./pages/index.js''])]"
proof -
  let ?e = "[(''main.js'', [''./a.js'']), (''static/commons/main.js'', [''./b.js'']),
             (''bundles/pages/index.js'', [''./pages/index.js''])] :: entries"
  let ?t = "(\<lambda>_. Inr ?e) :: unit \<Rightarrow> error + entries"
  have "\<exists>m. mainJsCompatEntry ?t () = Inr m \<and>
      m = AList.delete ''main.js''
            (AList.update ''static/commons/main.js'' ([''./a.js''] @ [''./b.js'']) ?e)"
    using C2_rewrite_amended [where originalEntry = ?t and e = ?e] by simp
  then show ?thesis by simp
qed

text \<open>
  C3, as stated, fails: a user function that replaces the entry thunk by one whose
  mapping has \<^verbatim>\<open>main.js\<close> and no \<^verbatim>\<open>static/commons/main.js\<close> yields a
  configuration whose entry thunk rejects with a \<^verbatim>\<open>TypeError\<close>.
\<close>

theorem C3_hook_entry_without_commons:
  "(case getBaseWebpackConfig sample_env ''/app'' False False ''build-1'' sample_config
          (Some (\<lambda>wc opts. Inr (wc\<lparr>wc_entry :=
             (\<lambda>_. Inr [(''main.js'', [''./polyfills.js'']),
                        (''bundles/pages/index.js'', [''./pages/index.js''])])\<rparr>))) of
      Inl err \<Rightarrow> None
    | Inr final \<Rightarrow> Some (wc_entry final ())) = Some (Inl TypeError)"
  by (simp add: sample_getBaseWebpackConfig userOverride_def mainJsCompatEntry_def
      rewriteEntry_def)

text \<open>
  C3, amended: the rewritten entry thunk succeeds and returns a mapping for every
  mapping of the underlying thunk in which \<^verbatim>\<open>main.js\<close> is absent or
  \<^verbatim>\<open>static/commons/main.js\<close> is present.
\<close>

theorem C3_rewrite_total_amended:
  assumes "originalEntry () = Inr e"
    and "map_of e ''main.js'' = None \<or> map_of e ''static/commons/main.js'' \<noteq> None"
  shows "\<exists>m. mainJsCompatEntry originalEntry () = Inr m"
  using assms
  by (auto simp add: mainJsCompatEntry_def rewriteEntry_def split: option.splits)

theorem C3_rewrite_total_amended_witness:
  "(\<lambda>_. Inr [(''main.js'', [''./polyfills.js'']),
             (''static/commons/main.js'', [''/next/dist/client/next''])]) ()
     = (Inr [(''main.js'', [''./polyfills.js'']),
             (''static/commons/main.js'', [''/next/dist/client/next''])] :: error + entries) \<and>
   map_of [(''main.js'', [''./polyfills.js'']),
           (''static/commons/main.js'', [''/next/dist/client/next''])] ''main.js''
     = Some [''./polyfills.js''] \<and>
   map_of [(''main.js'', [''./polyfills.js'']),
           (''static/commons/main.js'', [''/next/dist/client/next''])] ''static/commons/main.js''
     \<noteq> None \<and>
   (\<exists>m. mainJsCompatEntry
          (\<lambda>_. Inr [(''main.js'', [''./polyfills.js'']),
                     (''static/commons/main.js'', [''/next/dist/client/next''])]) () = Inr m) \<and>
   mainJsCompatEntry
          (\<lambda>_. Inr [(''main.js'', [''./polyfills.js'']),
                     (''static/commons/main.js'', [''/next/dist/client/next''])]) ()
     = Inr [(''static/commons/main.js'', [''./polyfills.js'', ''/next/dist/client/next''])]"
proof -
  let ?e = "[(''main.js'', [''./polyfills.js'']),
             (''static/commons/main.js'', [''/next/dist/client/next''])] :: entries"
  let ?t = "(\<lambda>_. Inr ?e) :: unit \<Rightarrow> error + entries"
  have a: "map_of ?e ''main.js'' = Some [''./polyfills.js'']" by simp
  have b: "map_of ?e ''static/commons/main.js'' \<noteq> None" by simp
  have c: "\<exists>m. mainJsCompatEntry ?t () = Inr m"
    using C3_rewrite_total_amended [where originalEntry = ?t and e = ?e] b by simp
  have d: "mainJsCompatEntry ?t () =
      Inr [(''static/commons/main.js'', [''./polyfills.js'', ''/next/dist/client/next''])]"
    by (simp add: mainJsCompatEntry_def rewriteEntry_def)
  from a b c d show ?thesis by simp
qed

subsection \<open>The commons key of the client entry mapping\<close>

text \<open>
  C4, as stated, fails: a user function that replaces the entry thunk by one whose
  mapping has neither \<^verbatim>\<open>main.js\<close> nor \<^verbatim>\<open>static/commons/main.js\<close> yields a
  client configuration whose final mapping is that mapping, without the key.
\<close>

theorem C4_hook_entry_replaced:
  "(case getBaseWebpackConfig sample_env ''/app'' False False ''build-1'' sample_config
          (Some (\<lambda>wc opts. Inr (wc\<lparr>wc_entry := (\<lambda>_. Inr [(''app.js'', [''./app.js''])])\<rparr>))) of
      Inl err \<Rightarrow> None
    | Inr final \<Rightarrow> Some (wc_entry final ())) = Some (Inr [(''app.js'', [''./app.js''])]) \<and>
   map_of [(''app.js'', [''./app.js''])] ''static/commons/main.js'' = None"
  by (simp add: sample_getBaseWebpackConfig userOverride_def mainJsCompatEntry_def
      rewriteEntry_def)

text \<open>
  When the mapping handed to the rewrite has the key \<^verbatim>\<open>static/commons/main.js\<close>,
  the rewrite succeeds, keeps the key and leaves no \<^verbatim>\<open>main.js\<close>.
\<close>

lemma rewriteEntry_keeps_commons:
  assumes "map_of e0 ''static/commons/main.js'' \<noteq> None"
  shows "\<exists>m. rewriteEntry e0 = Inr m \<and>
           map_of m ''static/commons/main.js'' \<noteq> None \<and> map_of m ''main.js'' = None"
proof (cases "map_of e0 ''main.js''")
  case None
  with assms show ?thesis by (simp add: rewriteEntry_def)
next
  case (Some A)
  from assms obtain B where "map_of e0 ''static/commons/main.js'' = Some B" by blast
  with Some show ?thesis by (simp add: rewriteEntry_def map_of_rewritten)
qed

text \<open>
  The entry thunk of the assembled client configuration returns a mapping with the key:
  it is in \<^verbatim>\<open>clientEntries\<close> and spreading the page entries over it does not remove
  it.
\<close>

lemma assembled_entry_has_commons:
  "\<exists>e0. wc_entry (assembledConfig e dir dev False config pagesEntries) () = Inr e0 \<and>
        map_of e0 ''static/commons/main.js'' \<noteq> None"
proof -
  have "map_of (clientEntries e dev False) ''static/commons/main.js'' \<noteq> None"
    by (simp add: clientEntries_def)
  from map_of_object_spread_Some [OF this, of pagesEntries]
  show ?thesis by (simp add: assembledConfig_def entry_def)
qed

text \<open>
  C4, amended: for every client build, the assembler returns a configuration whose entry
  thunk returns a mapping that has the key \<^verbatim>\<open>static/commons/main.js\<close> and not the key
  \<^verbatim>\<open>main.js\<close> whenever the entry thunk handed to the closing rewrite (the assembled
  one, or the one that the user's function left) returns a mapping that has the key
  \<^verbatim>\<open>static/commons/main.js\<close>; this is so in particular when that thunk is the
  assembled one (there is no user function, or its result keeps \<^verbatim>\<open>entry\<close>).
\<close>

theorem C4_commons_key_amended:
  assumes "regexp_valid e (hotSelfAcceptExtensions config)"
    and "getPages e dir
           \<lparr>nextPagesDir = DEFAULT_PAGES_DIR e, gp_dev = dev, gp_isServer = False,
            gp_pageExtensions = join ''|'' (pageExtensions config)\<rparr> = Inr pagesEntries"
    and "userOverride config_webpack (assembledConfig e dir dev False config pagesEntries)
           \<lparr>ho_dir = dir, ho_dev = dev, ho_isServer = False, ho_buildId = buildId,
            ho_config = config, ho_totalPages = length pagesEntries\<rparr> = Inr wc"
  shows "\<exists>final.
      getBaseWebpackConfig e dir dev False buildId config config_webpack = Inr final \<and>
      (\<forall>e0. wc_entry wc () = Inr e0 \<and> map_of e0 ''static/commons/main.js'' \<noteq> None \<longrightarrow>
         (\<exists>m. wc_entry final () = Inr m \<and>
            map_of m ''static/commons/main.js'' \<noteq> None \<and> map_of m ''main.js'' = None)) \<and>
      (wc_entry wc = wc_entry (assembledConfig e dir dev False config pagesEntries) \<longrightarrow>
         (\<exists>m. wc_entry final () = Inr m \<and>
            map_of m ''static/commons/main.js'' \<noteq> None \<and> map_of m ''main.js'' = None))"
proof -
  let ?final = "wc\<lparr>wc_entry := mainJsCompatEntry (wc_entry wc)\<rparr>"
  have cfg: "getBaseWebpackConfig e dir dev False buildId config config_webpack = Inr ?final"
    using assms by (simp add: getBaseWebpackConfig_def Let_def)
  have kept: "\<exists>m. wc_entry ?final () = Inr m \<and>
      map_of m ''static/commons/main.js'' \<noteq> None \<and> map_of m ''main.js'' = None"
    if "wc_entry wc () = Inr e0" "map_of e0 ''static/commons/main.js'' \<noteq> None" for e0
    using that rewriteEntry_keeps_commons [of e0] by (simp add: mainJsCompatEntry_def)
  have same: "\<exists>m. wc_entry ?final () = Inr m \<and>
      map_of m ''static/commons/main.js'' \<noteq> None \<and> map_of m ''main.js'' = None"
    if "wc_entry wc = wc_entry (assembledConfig e dir dev False config pagesEntries)"
  proof -
    from assembled_entry_has_commons [of e dir dev config pagesEntries] that
    obtain e0 where "wc_entry wc () = Inr e0" "map_of e0 ''static/commons/main.js'' \<noteq> None"
      by auto
    then show ?thesis by (rule kept)
  qed
  from cfg kept same show ?thesis by blast
qed

lemma sample_assembled_entry:
  "wc_entry (assembledConfig sample_env dir False False sample_config
       [(''bundles/pages/index.js'', [''./pages/index.js''])]) () =
     Inr [(''main.js'', []), (''static/commons/main.js'', [''/next/dist/client/next'']),
          (''bundles/pages/index.js'', [''./pages/index.js''])]"
  by (simp add: assembledConfig_def entry_def clientEntries_def sample_env_def object_spread_def)

theorem C4_commons_key_amended_witness:
  "\<exists>final.
      getBaseWebpackConfig sample_env ''/app'' False False ''build-1'' sample_config
        (Some polyfills_hook) = Inr final \<and>
      wc_entry final () =
        Inr [(''static/commons/main.js'', [''./polyfills.js'', ''/next/dist/client/next'']),
             (''bundles/pages/index.js'', [''./pages/index.js''])] \<and>
      (\<exists>m. wc_entry final () = Inr m \<and>
         map_of m ''static/commons/main.js'' \<noteq> None \<and> map_of m ''main.js'' = None)"
proof -
  let ?pages = "[(''bundles/pages/index.js'', [''./pages/index.js''])] :: entries"
  let ?a = "assembledConfig sample_env ''/app'' False False sample_config ?pages"
  let ?e0 = "[(''main.js'', [''./polyfills.js'']),
              (''static/commons/main.js'', [''/next/dist/client/next'']),
              (''bundles/pages/index.js'', [''./pages/index.js''])] :: entries"
  obtain wc where wc: "polyfills_hook ?a
           \<lparr>ho_dir = ''/app'', ho_dev = False, ho_isServer = False, ho_buildId = ''build-1'',
            ho_config = sample_config, ho_totalPages = length ?pages\<rparr> = Inr wc"
    by (simp add: polyfills_hook_def)
  have 1: "regexp_valid sample_env (hotSelfAcceptExtensions sample_config)"
    by (simp add: sample_env_def)
  have 2: "getPages sample_env ''/app''
           \<lparr>nextPagesDir = DEFAULT_PAGES_DIR sample_env, gp_dev = False, gp_isServer = False,
            gp_pageExtensions = join ''|'' (pageExtensions sample_config)\<rparr> = Inr ?pages"
    by (simp add: sample_env_def)
  have 3: "userOverride (Some polyfills_hook) ?a
           \<lparr>ho_dir = ''/app'', ho_dev = False, ho_isServer = False, ho_buildId = ''build-1'',
            ho_config = sample_config, ho_totalPages = length ?pages\<rparr> = Inr wc"
    using wc by (simp add: userOverride_def)
  have 4: "wc_entry wc () = Inr ?e0"
    using wc sample_assembled_entry [of "''/app''"] by (auto simp add: polyfills_hook_def)
  have 5: "map_of ?e0 ''static/commons/main.js'' \<noteq> None" by simp
  from C4_commons_key_amended [OF 1 2 3] obtain final where
    cfg: "getBaseWebpackConfig sample_env ''/app'' False False ''build-1'' sample_config
        (Some polyfills_hook) = Inr final" and
    key: "\<forall>e0. wc_entry wc () = Inr e0 \<and> map_of e0 ''static/commons/main.js'' \<noteq> None \<longrightarrow>
         (\<exists>m. wc_entry final () = Inr m \<and>
            map_of m ''static/commons/main.js'' \<noteq> None \<and> map_of m ''main.js'' = None)"
    by blast
  from key 4 5 have has: "\<exists>m. wc_entry final () = Inr m \<and>
            map_of m ''static/commons/main.js'' \<noteq> None \<and> map_of m ''main.js'' = None"
    by blast
  have "final = wc\<lparr>wc_entry := mainJsCompatEntry (wc_entry wc)\<rparr>"
    using cfg 1 2 3 by (simp add: getBaseWebpackConfig_def Let_def)
  then have val: "wc_entry final () =
        Inr [(''static/commons/main.js'', [''./polyfills.js'', ''/next/dist/client/next'']),
             (''bundles/pages/index.js'', [''./pages/index.js''])]"
    using 4 by (simp add: mainJsCompatEntry_def rewriteEntry_def)
  from cfg val has show ?thesis by blast
qed

subsection \<open>A failure of the user's function\<close>

text \<open>
  C6: when \<^verbatim>\<open>config.webpack\<close> is a function and throws when it is called with
  the assembled configuration, the assembler fails with the same error and returns no
  configuration.
\<close>

theorem C6_hook_failure_propagates:
  assumes "regexp_valid e (hotSelfAcceptExtensions config)"
    and "getPages e dir
           \<lparr>nextPagesDir = DEFAULT_PAGES_DIR e, gp_dev = dev, gp_isServer = isServer,
            gp_pageExtensions = join ''|'' (pageExtensions config)\<rparr> = Inr pagesEntries"
    and "f (assembledConfig e dir dev isServer config pagesEntries)
           \<lparr>ho_dir = dir, ho_dev = dev, ho_isServer = isServer, ho_buildId = buildId,
            ho_config = config, ho_totalPages = length pagesEntries\<rparr> = Inl err"
  shows "getBaseWebpackConfig e dir dev isServer buildId config (Some f) = Inl err"
  using assms by (simp add: getBaseWebpackConfig_def userOverride_def Let_def)

theorem C6_hook_failure_propagates_witness:
  "getBaseWebpackConfig sample_env ''/app'' True True ''build-1'' sample_config
     (Some (\<lambda>wc opts. Inl (Thrown ''plugin not installed''))) =
   Inl (Thrown ''plugin not installed'')"
proof -
  let ?f = "(\<lambda>wc opts. Inl (Thrown ''plugin not installed'')) :: hook"
  let ?pages = "[(''bundles/pages/index.js'', [''./pages/index.js''])] :: entries"
  have 1: "regexp_valid sample_env (hotSelfAcceptExtensions sample_config)"
    by (simp add: sample_env_def)
  have 2: "getPages sample_env ''/app''
           \<lparr>nextPagesDir = DEFAULT_PAGES_DIR sample_env, gp_dev = True, gp_isServer = True,
            gp_pageExtensions = join ''|'' (pageExtensions sample_config)\<rparr> = Inr ?pages"
    by (simp add: sample_env_def)
  have 3: "?f (assembledConfig sample_env ''/app'' True True sample_config ?pages)
           \<lparr>ho_dir = ''/app'', ho_dev = True, ho_isServer = True, ho_buildId = ''build-1'',
            ho_config = sample_config, ho_totalPages = length ?pages\<rparr>
         = Inl (Thrown ''plugin not installed'')"
    by simp
  from C6_hook_failure_propagates [where f = ?f, OF 1 2 3] show ?thesis .
qed

subsection \<open>Invoking the entry thunk again\<close>

lemma map_update_values:
  "map (\<lambda>(k, r). (k, f r)) (AList.update k v al) =
     AList.update k (f v) (map (\<lambda>(k, r). (k, f r)) al)"
  by (induction al) auto

lemma map_delete_values:
  "map (\<lambda>(k, r). (k, f r)) (AList.delete k al) =
     AList.delete k (map (\<lambda>(k, r). (k, f r)) al)"
  by (induction al) auto

lemma map_object_spread_values:
  "map (\<lambda>(k, r). (k, f r)) (object_spread a b) =
     object_spread (map (\<lambda>(k, r). (k, f r)) a) (map (\<lambda>(k, r). (k, f r)) b)"
  unfolding object_spread_def
  by (induction b arbitrary: a) (auto simp add: map_update_values)

lemma map_of_map_values:
  "map_of (map (\<lambda>(k, r). (k, f r)) al) k = map_option f (map_of al k)"
  by (induction al) auto

lemma list_all_update:
  "list_all (\<lambda>(k, r). Q r) al \<Longrightarrow> Q v \<Longrightarrow> list_all (\<lambda>(k, r). Q r) (AList.update k v al)"
  by (induction al) auto

lemma list_all_delete:
  "list_all P al \<Longrightarrow> list_all P (AList.delete k al)"
  by (induction al) auto

lemma list_all_object_spread:
  "list_all (\<lambda>(k, r). Q r) a \<Longrightarrow> list_all (\<lambda>(k, r). Q r) b \<Longrightarrow>
   list_all (\<lambda>(k, r). Q r) (object_spread a b)"
  unfolding object_spread_def
  by (induction b arbitrary: a) (auto simp add: list_all_update)

lemma list_all_map_of:
  "list_all (\<lambda>(k, r). Q r) al \<Longrightarrow> map_of al k = Some r \<Longrightarrow> Q r"
  by (induction al) (auto split: if_splits)

lemma map_values_cong:
  "list_all (\<lambda>(k, r). f r = g r) al \<Longrightarrow>
   map (\<lambda>(k, r). (k, f r)) al = map (\<lambda>(k, r). (k, g r)) al"
  by (induction al) auto

lemma list_all_values_mono:
  "list_all (\<lambda>(k, r). P r) al \<Longrightarrow> (\<And>r. P r \<Longrightarrow> Q r) \<Longrightarrow> list_all (\<lambda>(k, r). Q r) al"
  by (induction al) auto

lemma prefix_nth: "prefix xs ys \<Longrightarrow> i < length xs \<Longrightarrow> ys ! i = xs ! i"
  by (auto simp add: prefix_def nth_append)

lemma store_le_refl: "store_le s s"
  by (simp add: store_le_def)

lemma store_le_trans: "store_le s s1 \<Longrightarrow> store_le s1 s2 \<Longrightarrow> store_le s s2"
  by (auto simp add: store_le_def)

text \<open>In an extension of the store a valid object is valid and reads the same.\<close>

lemma valid_object_mono:
  assumes "store_le s s'" and "valid_object s a"
  shows "valid_object s' a"
proof -
  from assms have len: "length (objects s) \<le> length (objects s')"
    "length (arrays s) \<le> length (arrays s')"
    by (auto simp add: store_le_def prefix_length_le)
  from assms have same: "objects s' ! a = objects s ! a"
    by (simp add: store_le_def valid_object_def prefix_nth)
  from assms(2) have "list_all (\<lambda>(k, r). r < length (arrays s)) (objects s ! a)"
    by (simp add: valid_object_def)
  then have "list_all (\<lambda>(k, r). r < length (arrays s')) (objects s ! a)"
    by (rule list_all_values_mono) (use len in simp)
  with assms(2) len same show ?thesis by (simp add: valid_object_def)
qed

lemma read_entries_mono:
  assumes "store_le s s'" and "valid_object s a"
  shows "read_entries s' a = read_entries s a"
proof -
  from assms have same: "objects s' ! a = objects s ! a"
    by (simp add: store_le_def valid_object_def prefix_nth)
  from assms(2) have "list_all (\<lambda>(k, r). r < length (arrays s)) (objects s ! a)"
    by (simp add: valid_object_def)
  then have "list_all (\<lambda>(k, r). arrays s' ! r = arrays s ! r) (objects s ! a)"
    by (rule list_all_values_mono) (use assms(1) in \<open>simp add: store_le_def prefix_nth\<close>)
  then show ?thesis
    unfolding read_entries_def same by (rule map_values_cong)
qed

lemma read_result_mono:
  assumes "store_le s s'" and "case r of Inl err \<Rightarrow> True | Inr a \<Rightarrow> valid_object s a"
  shows "read_result s' r = read_result s r"
  using assms by (cases r) (simp_all add: read_result_def read_entries_mono)

lemma entry_store_step:
  assumes "valid_object s client" and "valid_object s pages"
  shows "\<exists>a s1. entry_store client pages s = (Inr a, s1) \<and> store_le s s1 \<and>
           valid_object s1 a \<and>
           read_entries s1 a = object_spread (read_entries s client) (read_entries s pages)"
proof -
  let ?sp = "object_spread (objects s ! client) (objects s ! pages)"
  let ?a = "length (objects s)"
  let ?s1 = "s\<lparr>objects := objects s @ [?sp]\<rparr>"
  have run: "entry_store client pages s = (Inr ?a, ?s1)"
    by (simp add: entry_store_def new_object_def)
  have le: "store_le s ?s1"
    by (simp add: store_le_def)
  have "list_all (\<lambda>(k, r). r < length (arrays s)) ?sp"
    using assms by (simp add: valid_object_def list_all_object_spread)
  then have valid: "valid_object ?s1 ?a"
    by (simp add: valid_object_def)
  have read: "read_entries ?s1 ?a =
      object_spread (read_entries s client) (read_entries s pages)"
    by (simp add: read_entries_def map_object_spread_values)
  from run le valid read show ?thesis by blast
qed

lemma compat_store_absent:
  assumes "originalEntry s = (Inr a0, s1)" and "map_of (objects s1 ! a0) ''main.js'' = None"
  shows "mainJsCompatEntry_store originalEntry s =
     (Inr (length (objects s1)), s1\<lparr>objects := objects s1 @ [objects s1 ! a0]\<rparr>)"
  using assms by (simp add: mainJsCompatEntry_store_def new_object_def)

lemma compat_store_no_commons:
  assumes "originalEntry s = (Inr a0, s1)" and "map_of (objects s1 ! a0) ''main.js'' = Some m"
    and "map_of (objects s1 ! a0) ''static/commons/main.js'' = None"
  shows "mainJsCompatEntry_store originalEntry s =
     (Inl TypeError, s1\<lparr>objects := objects s1 @ [objects s1 ! a0]\<rparr>)"
  using assms by (simp add: mainJsCompatEntry_store_def new_object_def)

lemma compat_store_present:
  assumes "originalEntry s = (Inr a0, s1)" and "map_of (objects s1 ! a0) ''main.js'' = Some m"
    and "map_of (objects s1 ! a0) ''static/commons/main.js'' = Some c"
  shows "mainJsCompatEntry_store originalEntry s =
     (Inr (length (objects s1)),
      s1\<lparr>objects := objects s1 @
             [AList.delete ''main.js''
                (AList.update ''static/commons/main.js'' (length (arrays s1))
                   (objects s1 ! a0))],
         arrays := arrays s1 @ [arrays s1 ! m @ arrays s1 ! c]\<rparr>)"
  using assms
  by (simp add: mainJsCompatEntry_store_def new_object_def new_array_def set_property_def
      delete_property_def)


text \<open>
  One run of the closing rewrite over any original thunk: it extends the store that the
  original thunk leaves, and its result stands for the result of the pure rewrite.
\<close>

lemma mainJsCompatEntry_store_step:
  assumes run: "originalEntry s = (Inr a0, s1)" and valid: "valid_object s1 a0"
  shows "\<exists>r s2. mainJsCompatEntry_store originalEntry s = (r, s2) \<and> store_le s1 s2 \<and>
           (case r of Inl err \<Rightarrow> True | Inr a \<Rightarrow> valid_object s2 a) \<and>
           read_result s2 r = rewriteEntry (read_entries s1 a0)"
proof -
  let ?f = "objects s1 ! a0"
  let ?a = "length (objects s1)"
  from valid have refs: "list_all (\<lambda>(k, r). r < length (arrays s1)) ?f"
    by (simp add: valid_object_def)
  have look: "map_of (read_entries s1 a0) k = map_option (\<lambda>r. arrays s1 ! r) (map_of ?f k)" for k
    by (simp add: read_entries_def map_of_map_values)
  show ?thesis
  proof (cases "map_of ?f ''main.js''")
    case None
    let ?s2 = "s1\<lparr>objects := objects s1 @ [?f]\<rparr>"
    have 1: "mainJsCompatEntry_store originalEntry s = (Inr ?a, ?s2)"
      using run None by (rule compat_store_absent)
    have 2: "store_le s1 ?s2" by (simp add: store_le_def)
    have 3: "valid_object ?s2 ?a" using refs by (simp add: valid_object_def)
    have "read_entries ?s2 ?a = read_entries s1 a0" by (simp add: read_entries_def)
    moreover have "rewriteEntry (read_entries s1 a0) = Inr (read_entries s1 a0)"
      using None by (simp add: rewriteEntry_def look)
    ultimately have 4: "read_result ?s2 (Inr ?a) = rewriteEntry (read_entries s1 a0)"
      by (simp add: read_result_def)
    from 1 2 3 4 show ?thesis by auto
  next
    case (Some m)
    note main = this
    show ?thesis
    proof (cases "map_of ?f ''static/commons/main.js''")
      case None
      let ?s2 = "s1\<lparr>objects := objects s1 @ [?f]\<rparr>"
      have 1: "mainJsCompatEntry_store originalEntry s = (Inl TypeError, ?s2)"
        using run main None by (rule compat_store_no_commons)
      have 2: "store_le s1 ?s2" by (simp add: store_le_def)
      have 4: "read_result ?s2 (Inl TypeError) = rewriteEntry (read_entries s1 a0)"
        using main None by (simp add: rewriteEntry_def look read_result_def)
      from 1 2 4 show ?thesis by auto
    next
      case (Some c)
      let ?new = "arrays s1 ! m @ arrays s1 ! c"
      let ?g = "AList.delete ''main.js''
                  (AList.update ''static/commons/main.js'' (length (arrays s1)) ?f)"
      let ?s2 = "s1\<lparr>objects := objects s1 @ [?g], arrays := arrays s1 @ [?new]\<rparr>"
      have 1: "mainJsCompatEntry_store originalEntry s = (Inr ?a, ?s2)"
        using run main Some by (rule compat_store_present)
      have 2: "store_le s1 ?s2" by (simp add: store_le_def)
      have refs': "list_all (\<lambda>(k, r). r < length (arrays s1 @ [?new])) ?f"
        using refs by (rule list_all_values_mono) simp
      then have "list_all (\<lambda>(k, r). r < length (arrays s1 @ [?new])) ?g"
        by (simp add: list_all_delete list_all_update)
      then have 3: "valid_object ?s2 ?a" by (simp add: valid_object_def)
      have same: "map (\<lambda>(k, r). (k, (arrays s1 @ [?new]) ! r)) ?f =
          map (\<lambda>(k, r). (k, arrays s1 ! r)) ?f"
        by (rule map_values_cong, rule list_all_values_mono [OF refs]) (simp add: nth_append)
      have "read_entries ?s2 ?a =
          AList.delete ''main.js''
            (AList.update ''static/commons/main.js'' ?new (read_entries s1 a0))"
        by (simp add: read_entries_def map_delete_values map_update_values same)
      moreover have "rewriteEntry (read_entries s1 a0) =
          Inr (AList.delete ''main.js''
            (AList.update ''static/commons/main.js'' ?new (read_entries s1 a0)))"
        using main Some by (simp add: rewriteEntry_def look)
      ultimately have 4: "read_result ?s2 (Inr ?a) = rewriteEntry (read_entries s1 a0)"
        by (simp add: read_result_def)
      from 1 2 3 4 show ?thesis by auto
    qed
  qed
qed

text \<open>The same for an original thunk that may also reject.\<close>

lemma mainJsCompatEntry_store_step_result:
  assumes run: "t s = (r, s1)"
    and valid: "case r of Inl err \<Rightarrow> True | Inr a \<Rightarrow> valid_object s1 a"
  shows "\<exists>r' s2. mainJsCompatEntry_store t s = (r', s2) \<and> store_le s1 s2 \<and>
           (case r' of Inl err \<Rightarrow> True | Inr a \<Rightarrow> valid_object s2 a) \<and>
           read_result s2 r' =
             (case read_result s1 r of Inl err \<Rightarrow> Inl err | Inr e \<Rightarrow> rewriteEntry e)"
proof (cases r)
  case (Inl err)
  with run have "mainJsCompatEntry_store t s = (Inl err, s1)"
    by (simp add: mainJsCompatEntry_store_def)
  with Inl show ?thesis by (simp add: store_le_refl read_result_def)
next
  case (Inr a0)
  with run valid have "t s = (Inr a0, s1)" "valid_object s1 a0" by simp_all
  from mainJsCompatEntry_store_step [where originalEntry = t, OF this]
  show ?thesis using Inr by (simp add: read_result_def)
qed

text \<open>
  Any number of invocations of the closing rewrite over a thunk \<open>t\<close> that, on every
  extension of the store \<open>s\<close>, only extends the store and returns a result that reads
  as \<open>R\<close>.
\<close>

lemma compat_invoke_times:
  assumes impl: "\<forall>s1. store_le s s1 \<longrightarrow>
      (\<exists>r s2. t s1 = (r, s2) \<and> store_le s1 s2 \<and>
         (case r of Inl err \<Rightarrow> True | Inr a \<Rightarrow> valid_object s2 a) \<and>
         read_result s2 r = R)"
    and le0: "store_le s s0"
  shows "\<exists>rs s'. invoke_times n (mainJsCompatEntry_store t) s0 = (rs, s') \<and>
           length rs = n \<and> store_le s0 s' \<and>
           list_all (\<lambda>r. (case r of Inl err \<Rightarrow> True | Inr a \<Rightarrow> valid_object s' a) \<and>
              read_result s' r =
                (case R of Inl err \<Rightarrow> Inl err | Inr e \<Rightarrow> rewriteEntry e)) rs"
  using le0
proof (induction n arbitrary: s0)
  case 0
  then show ?case by (simp add: store_le_refl)
next
  case (Suc n)
  let ?w = "mainJsCompatEntry_store t"
  let ?R = "case R of Inl err \<Rightarrow> Inl err | Inr e \<Rightarrow> rewriteEntry e"
  from impl Suc.prems obtain r0 s1 where
    t: "t s0 = (r0, s1)" and le1: "store_le s0 s1" and
    v0: "case r0 of Inl err \<Rightarrow> True | Inr a \<Rightarrow> valid_object s1 a" and
    r0: "read_result s1 r0 = R"
    by blast
  from mainJsCompatEntry_store_step_result [where t = t and s = s0, OF t v0] obtain r s2 where
    w: "?w s0 = (r, s2)" and le2: "store_le s1 s2" and
    vr: "case r of Inl err \<Rightarrow> True | Inr a \<Rightarrow> valid_object s2 a" and
    rr: "read_result s2 r = ?R"
    unfolding r0 by blast
  have le02: "store_le s0 s2" using le1 le2 by (rule store_le_trans)
  have "store_le s s2" using Suc.prems le02 by (rule store_le_trans)
  from Suc.IH [OF this] obtain rs s3 where
    i: "invoke_times n ?w s2 = (rs, s3)" and len: "length rs = n" and le3: "store_le s2 s3" and
    all: "list_all (\<lambda>r. (case r of Inl err \<Rightarrow> True | Inr a \<Rightarrow> valid_object s3 a) \<and>
              read_result s3 r = ?R) rs"
    by blast
  have run: "invoke_times (Suc n) ?w s0 = (r # rs, s3)"
    using w i by simp
  have vr3: "case r of Inl err \<Rightarrow> True | Inr a \<Rightarrow> valid_object s3 a"
    using vr le3 by (cases r) (auto intro: valid_object_mono)
  have rr3: "read_result s3 r = ?R"
    using read_result_mono [OF le3 vr] rr by simp
  from run len store_le_trans [OF le02 le3] vr3 rr3 all show ?case by simp
qed

text \<open>
  The assembled thunk \<^verbatim>\<open>entry\<close> is such a thunk, on every store that holds
  \<^verbatim>\<open>clientEntries\<close> and \<^verbatim>\<open>pagesEntries\<close>.
\<close>

lemma entry_store_implements:
  assumes "valid_object s client" and "valid_object s pages"
  shows "\<forall>s1. store_le s s1 \<longrightarrow>
      (\<exists>r s2. entry_store client pages s1 = (r, s2) \<and> store_le s1 s2 \<and>
         (case r of Inl err \<Rightarrow> True | Inr a \<Rightarrow> valid_object s2 a) \<and>
         read_result s2 r = entry (read_entries s client) (read_entries s pages) ())"
proof (intro allI impI)
  fix s1 assume le: "store_le s s1"
  have v: "valid_object s1 client" "valid_object s1 pages"
    using le assms by (auto intro: valid_object_mono)
  have same: "read_entries s1 client = read_entries s client"
    "read_entries s1 pages = read_entries s pages"
    using le assms by (auto intro: read_entries_mono)
  from entry_store_step [OF v] obtain a s2 where
    "entry_store client pages s1 = (Inr a, s2)" "store_le s1 s2" "valid_object s2 a"
    "read_entries s2 a = object_spread (read_entries s1 client) (read_entries s1 pages)"
    by blast
  then show "\<exists>r s2. entry_store client pages s1 = (r, s2) \<and> store_le s1 s2 \<and>
         (case r of Inl err \<Rightarrow> True | Inr a \<Rightarrow> valid_object s2 a) \<and>
         read_result s2 r = entry (read_entries s client) (read_entries s pages) ()"
    by (auto simp add: read_result_def entry_def same)
qed

text \<open>
  C5, as stated, fails: the final thunk wraps the thunk that the user's function left,
  and \<^verbatim>\<open>entry\<close> hands out the arrays of \<^verbatim>\<open>clientEntries\<close> themselves. With a
  user's thunk that does \<^verbatim>\<open>entries['main.js'].unshift('./polyfills.js')\<close>, two
  invocations of the final thunk return different mappings (one and then two copies of the
  module), and the array under \<^verbatim>\<open>main.js\<close> of \<^verbatim>\<open>clientEntries\<close> has been
  written to.
\<close>

theorem C5_unshift_hook_thunk:
  "\<exists>s'. invoke_times 2
          (mainJsCompatEntry_store (polyfills_entry_store (entry_store 0 1))) sample_store
        = ([Inr 3, Inr 5], s') \<and>
      read_entries s' 3 =
        [(''static/commons/main.js'', [''./polyfills.js'', ''/next/dist/client/next'']),
         (''bundles/pages/index.js'', [''./pages/index.js''])] \<and>
      read_entries s' 5 =
        [(''static/commons/main.js'',
          [''./polyfills.js'', ''./polyfills.js'', ''/next/dist/client/next'']),
         (''bundles/pages/index.js'', [''./pages/index.js''])] \<and>
      read_entries s' 3 \<noteq> read_entries s' 5 \<and>
      read_entries sample_store 0 =
        [(''main.js'', []), (''static/commons/main.js'', [''/next/dist/client/next''])] \<and>
      read_entries s' 0 =
        [(''main.js'', [''./polyfills.js'', ''./polyfills.js'']),
         (''static/commons/main.js'', [''/next/dist/client/next''])] \<and>
      \<not> store_le sample_store s'"
proof -
  let ?s = "\<lparr>objects =
     [[(''main.js'', 0), (''static/commons/main.js'', 1)],
      [(''bundles/pages/index.js'', 2)],
      [(''main.js'', 0), (''static/commons/main.js'', 1), (''bundles/pages/index.js'', 2)],
      [(''static/commons/main.js'', 3), (''bundles/pages/index.js'', 2)],
      [(''main.js'', 0), (''static/commons/main.js'', 1), (''bundles/pages/index.js'', 2)],
      [(''static/commons/main.js'', 4), (''bundles/pages/index.js'', 2)]],
     arrays =
       [[''./polyfills.js'', ''./polyfills.js''],
        [''/next/dist/client/next''], [''./pages/index.js''],
        [''./polyfills.js'', ''/next/dist/client/next''],
        [''./polyfills.js'', ''./polyfills.js'', ''/next/dist/client/next'']]\<rparr>"
  have run: "invoke_times 2
          (mainJsCompatEntry_store (polyfills_entry_store (entry_store 0 1))) sample_store
        = ([Inr 3, Inr 5], ?s)"
    by (simp add: sample_store_def numeral_2_eq_2 mainJsCompatEntry_store_def
        polyfills_entry_store_def unshift_def entry_store_def new_object_def new_array_def
        set_property_def delete_property_def object_spread_def)
  have r3: "read_entries ?s 3 =
        [(''static/commons/main.js'', [''./polyfills.js'', ''/next/dist/client/next'']),
         (''bundles/pages/index.js'', [''./pages/index.js''])]"
    by (simp add: read_entries_def numeral_3_eq_3)
  have r5: "read_entries ?s 5 =
        [(''static/commons/main.js'',
          [''./polyfills.js'', ''./polyfills.js'', ''/next/dist/client/next'']),
         (''bundles/pages/index.js'', [''./pages/index.js''])]"
    by (simp add: read_entries_def eval_nat_numeral)
  have ne: "read_entries ?s 3 \<noteq> read_entries ?s 5"
    unfolding r3 r5 by simp
  have c0: "read_entries sample_store 0 =
        [(''main.js'', []), (''static/commons/main.js'', [''/next/dist/client/next''])]"
    by (simp add: read_entries_def sample_store_def)
  have c1: "read_entries ?s 0 =
        [(''main.js'', [''./polyfills.js'', ''./polyfills.js'']),
         (''static/commons/main.js'', [''/next/dist/client/next''])]"
    by (simp add: read_entries_def)
  have nle: "\<not> store_le sample_store ?s"
    by (simp add: store_le_def sample_store_def)
  from run r3 r5 ne c0 c1 nle show ?thesis by blast
qed

text \<open>
  C5, amended: the final entry thunk can be invoked any number of times whenever the thunk
  it wraps (the assembled \<^verbatim>\<open>entry\<close>, or the one that the user's function left)
  itself writes to no object or array that exists when it is invoked and returns the same
  mapping every time. Then \<open>n\<close> invocations in a row return \<open>n\<close> results that all
  stand for the one result of the pure thunk of the final configuration, read in the store
  the last invocation leaves; and that store extends the first one, so that no cell that
  existed before an invocation (the client entries, the page entries, a mapping returned
  earlier and its arrays) has been written to. The assembled thunk is such a thunk.
\<close>

theorem C5_entry_thunk_amended:
  assumes "regexp_valid e (hotSelfAcceptExtensions config)"
    and "getPages e dir
           \<lparr>nextPagesDir = DEFAULT_PAGES_DIR e, gp_dev = dev, gp_isServer = isServer,
            gp_pageExtensions = join ''|'' (pageExtensions config)\<rparr> = Inr pagesEntries"
    and "userOverride config_webpack (assembledConfig e dir dev isServer config pagesEntries)
           \<lparr>ho_dir = dir, ho_dev = dev, ho_isServer = isServer, ho_buildId = buildId,
            ho_config = config, ho_totalPages = length pagesEntries\<rparr> = Inr wc"
    and "\<forall>s1. store_le s s1 \<longrightarrow>
      (\<exists>r s2. t s1 = (r, s2) \<and> store_le s1 s2 \<and>
         (case r of Inl err \<Rightarrow> True | Inr a \<Rightarrow> valid_object s2 a) \<and>
         read_result s2 r = wc_entry wc ())"
  shows "\<exists>final rs s'.
      getBaseWebpackConfig e dir dev isServer buildId config config_webpack = Inr final \<and>
      invoke_times n (mainJsCompatEntry_store t) s = (rs, s') \<and>
      length rs = n \<and> store_le s s' \<and>
      list_all (\<lambda>r. read_result s' r = wc_entry final ()) rs"
proof -
  let ?final = "wc\<lparr>wc_entry := mainJsCompatEntry (wc_entry wc)\<rparr>"
  have cfg: "getBaseWebpackConfig e dir dev isServer buildId config config_webpack = Inr ?final"
    using assms(1-3) by (simp add: getBaseWebpackConfig_def Let_def)
  from compat_invoke_times [where t = t and s = s and n = n, OF assms(4) store_le_refl]
  obtain rs s' where
    run: "invoke_times n (mainJsCompatEntry_store t) s = (rs, s')" and
    len: "length rs = n" and le: "store_le s s'" and
    all: "list_all (\<lambda>r. (case r of Inl err \<Rightarrow> True | Inr a \<Rightarrow> valid_object s' a) \<and>
              read_result s' r =
                (case wc_entry wc () of Inl err \<Rightarrow> Inl err | Inr e \<Rightarrow> rewriteEntry e)) rs"
    by blast
  have res: "list_all (\<lambda>r. read_result s' r = wc_entry ?final ()) rs"
    using all by (simp add: mainJsCompatEntry_def list_all_iff)
  from cfg run len le res show ?thesis by blast
qed


text \<open>
  The user's thunk that copies instead of calling \<^verbatim>\<open>unshift\<close> is such a thunk
  too, over the assembled one.
\<close>

lemma polyfills_copy_implements:
  assumes "valid_object s client" and "valid_object s pages"
    and main: "map_of (object_spread (read_entries s client) (read_entries s pages)) ''main.js''
      = Some xs"
  shows "\<forall>s1. store_le s s1 \<longrightarrow>
      (\<exists>r s2. polyfills_copy_entry_store (entry_store client pages) s1 = (r, s2) \<and>
         store_le s1 s2 \<and>
         (case r of Inl err \<Rightarrow> True | Inr a \<Rightarrow> valid_object s2 a) \<and>
         read_result s2 r =
           Inr (AList.update ''main.js'' (''./polyfills.js'' # xs)
                 (object_spread (read_entries s client) (read_entries s pages))))"
proof (intro allI impI)
  fix s1 assume le: "store_le s s1"
  let ?E = "object_spread (read_entries s client) (read_entries s pages)"
  have v: "valid_object s1 client" "valid_object s1 pages"
    using le assms(1,2) by (auto intro: valid_object_mono)
  have same: "read_entries s1 client = read_entries s client"
    "read_entries s1 pages = read_entries s pages"
    using le assms(1,2) by (auto intro: read_entries_mono)
  from entry_store_step [OF v] obtain a0 s2 where
    e: "entry_store client pages s1 = (Inr a0, s2)" and le12: "store_le s1 s2" and
    va: "valid_object s2 a0" and rd: "read_entries s2 a0 = ?E"
    unfolding same by blast
  let ?f = "objects s2 ! a0"
  from va have refs: "list_all (\<lambda>(k, r). r < length (arrays s2)) ?f"
    by (simp add: valid_object_def)
  have "map_of (read_entries s2 a0) ''main.js'' = Some xs"
    using main rd by simp
  moreover have "map_of (read_entries s2 a0) ''main.js'' =
      map_option (\<lambda>r. arrays s2 ! r) (map_of ?f ''main.js'')"
    by (simp add: read_entries_def map_of_map_values)
  ultimately have "map_option (\<lambda>r. arrays s2 ! r) (map_of ?f ''main.js'') = Some xs"
    by simp
  then obtain m where m: "map_of ?f ''main.js'' = Some m" and xs: "arrays s2 ! m = xs"
    by auto
  let ?new = "''./polyfills.js'' # xs"
  let ?g = "AList.update ''main.js'' (length (arrays s2)) ?f"
  let ?a = "length (objects s2)"
  let ?s3 = "s2\<lparr>arrays := arrays s2 @ [?new], objects := objects s2 @ [?g]\<rparr>"
  have run: "polyfills_copy_entry_store (entry_store client pages) s1 = (Inr ?a, ?s3)"
    using e m xs by (simp add: polyfills_copy_entry_store_def new_array_def new_object_def)
  have le23: "store_le s2 ?s3" by (simp add: store_le_def)
  have refs': "list_all (\<lambda>(k, r). r < length (arrays s2 @ [?new])) ?f"
    using refs by (rule list_all_values_mono) simp
  then have "list_all (\<lambda>(k, r). r < length (arrays s2 @ [?new])) ?g"
    by (simp add: list_all_update)
  then have valid: "valid_object ?s3 ?a" by (simp add: valid_object_def)
  have cong: "map (\<lambda>(k, r). (k, (arrays s2 @ [?new]) ! r)) ?f =
      map (\<lambda>(k, r). (k, arrays s2 ! r)) ?f"
    by (rule map_values_cong, rule list_all_values_mono [OF refs]) (simp add: nth_append)
  have "read_entries ?s3 ?a = AList.update ''main.js'' ?new (read_entries s2 a0)"
    by (simp add: read_entries_def map_update_values cong)
  with rd have read: "read_result ?s3 (Inr ?a) = Inr (AList.update ''main.js'' ?new ?E)"
    by (simp add: read_result_def)
  from run store_le_trans [OF le12 le23] valid read
  show "\<exists>r s2. polyfills_copy_entry_store (entry_store client pages) s1 = (r, s2) \<and>
         store_le s1 s2 \<and>
         (case r of Inl err \<Rightarrow> True | Inr a \<Rightarrow> valid_object s2 a) \<and>
         read_result s2 r = Inr (AList.update ''main.js'' ?new ?E)"
    by auto
qed


lemma sample_store_two_copy_invocations:
  "fst (invoke_times 2
     (mainJsCompatEntry_store (polyfills_copy_entry_store (entry_store 0 1))) sample_store)
   = [Inr 4, Inr 7]"
  by (simp add: sample_store_def numeral_2_eq_2 mainJsCompatEntry_store_def
      polyfills_copy_entry_store_def entry_store_def new_object_def new_array_def
      set_property_def delete_property_def object_spread_def)

theorem C5_entry_thunk_amended_witness:
  "\<exists>final s'.
     getBaseWebpackConfig sample_env ''/app'' False False ''build-1'' sample_config
       (Some polyfills_hook) = Inr final \<and>
     wc_entry final () =
       Inr [(''static/commons/main.js'', [''./polyfills.js'', ''/next/dist/client/next'']),
            (''bundles/pages/index.js'', [''./pages/index.js''])] \<and>
     invoke_times 2
       (mainJsCompatEntry_store (polyfills_copy_entry_store (entry_store 0 1))) sample_store
       = ([Inr 4, Inr 7], s') \<and>
     store_le sample_store s' \<and>
     read_entries s' 0 =
       [(''main.js'', []), (''static/commons/main.js'', [''/next/dist/client/next''])] \<and>
     read_entries s' 1 = [(''bundles/pages/index.js'', [''./pages/index.js''])] \<and>
     read_result s' (Inr 4) = wc_entry final () \<and>
     read_result s' (Inr 7) = wc_entry final ()"
proof -
  let ?pages = "[(''bundles/pages/index.js'', [''./pages/index.js''])] :: entries"
  let ?a = "assembledConfig sample_env ''/app'' False False sample_config ?pages"
  let ?e0 = "[(''main.js'', [''./polyfills.js'']),
              (''static/commons/main.js'', [''/next/dist/client/next'']),
              (''bundles/pages/index.js'', [''./pages/index.js''])] :: entries"
  let ?t = "polyfills_copy_entry_store (entry_store 0 1)"
  obtain wc where wc: "polyfills_hook ?a
           \<lparr>ho_dir = ''/app'', ho_dev = False, ho_isServer = False, ho_buildId = ''build-1'',
            ho_config = sample_config, ho_totalPages = length ?pages\<rparr> = Inr wc"
    by (simp add: polyfills_hook_def)
  have 1: "regexp_valid sample_env (hotSelfAcceptExtensions sample_config)"
    by (simp add: sample_env_def)
  have 2: "getPages sample_env ''/app''
           \<lparr>nextPagesDir = DEFAULT_PAGES_DIR sample_env, gp_dev = False, gp_isServer = False,
            gp_pageExtensions = join ''|'' (pageExtensions sample_config)\<rparr> = Inr ?pages"
    by (simp add: sample_env_def)
  have 3: "userOverride (Some polyfills_hook) ?a
           \<lparr>ho_dir = ''/app'', ho_dev = False, ho_isServer = False, ho_buildId = ''build-1'',
            ho_config = sample_config, ho_totalPages = length ?pages\<rparr> = Inr wc"
    using wc by (simp add: userOverride_def)
  have pure: "wc_entry wc () = Inr ?e0"
    using wc sample_assembled_entry [of "''/app''"] by (auto simp add: polyfills_hook_def)
  have v0: "valid_object sample_store 0" and v1: "valid_object sample_store 1"
    by (simp_all add: valid_object_def sample_store_def)
  have c0: "read_entries sample_store 0 =
      [(''main.js'', []), (''static/commons/main.js'', [''/next/dist/client/next''])]"
    by (simp add: read_entries_def sample_store_def)
  have c1: "read_entries sample_store 1 = ?pages"
    by (simp add: read_entries_def sample_store_def)
  have main: "map_of (object_spread (read_entries sample_store 0) (read_entries sample_store 1))
      ''main.js'' = Some []"
    unfolding c0 c1 by (simp add: object_spread_def)
  have e0: "AList.update ''main.js'' (''./polyfills.js'' # [])
      (object_spread (read_entries sample_store 0) (read_entries sample_store 1)) = ?e0"
    unfolding c0 c1 by (simp add: object_spread_def)
  have 4: "\<forall>s1. store_le sample_store s1 \<longrightarrow>
      (\<exists>r s2. ?t s1 = (r, s2) \<and> store_le s1 s2 \<and>
         (case r of Inl err \<Rightarrow> True | Inr a \<Rightarrow> valid_object s2 a) \<and>
         read_result s2 r = wc_entry wc ())"
    using polyfills_copy_implements [OF v0 v1 main] unfolding e0 pure .
  from C5_entry_thunk_amended [where t = ?t and n = 2, OF 1 2 3 4]
  obtain final rs s' where
    cfg: "getBaseWebpackConfig sample_env ''/app'' False False ''build-1'' sample_config
       (Some polyfills_hook) = Inr final" and
    run: "invoke_times 2 (mainJsCompatEntry_store ?t) sample_store = (rs, s')" and
    le: "store_le sample_store s'" and
    all: "list_all (\<lambda>r. read_result s' r = wc_entry final ()) rs"
    by blast
  from run sample_store_two_copy_invocations have rs: "rs = [Inr 4, Inr 7]"
    by simp
  have "final = wc\<lparr>wc_entry := mainJsCompatEntry (wc_entry wc)\<rparr>"
    using cfg 1 2 3 by (simp add: getBaseWebpackConfig_def Let_def)
  then have val: "wc_entry final () =
       Inr [(''static/commons/main.js'', [''./polyfills.js'', ''/next/dist/client/next'']),
            (''bundles/pages/index.js'', [''./pages/index.js''])]"
    using pure by (simp add: mainJsCompatEntry_def rewriteEntry_def)
  from all rs have res: "read_result s' (Inr 4) = wc_entry final ()"
    "read_result s' (Inr 7) = wc_entry final ()"
    by simp_all
  have keep: "read_entries s' 0 =
       [(''main.js'', []), (''static/commons/main.js'', [''/next/dist/client/next''])]"
    "read_entries s' 1 = ?pages"
    using read_entries_mono [OF le v0] read_entries_mono [OF le v1] c0 c1 by simp_all
  from cfg val run rs le keep res show ?thesis by auto
qed

end
